theory Spec2Isabelle
  imports Main "HOL-Library.Sublist" "HOL-Library.Extended_Nat"
begin

section \<open>Mistral OCR ingestion (api/server/services/Files/MistralOCR/crud.js)\<close>

text \<open>
  The module exports four asynchronous functions: \<^verbatim>\<open>uploadDocumentToMistral\<close>,
  \<^verbatim>\<open>getSignedUrl\<close>, \<^verbatim>\<open>performOCR\<close> and \<^verbatim>\<open>uploadMistralOCR\<close>. Every \<^verbatim>\<open>await\<close> is
  sequential, so a call is modelled as a pure function that returns the list of the
  interactions with the outside world it performed, in order, together with either the
  thrown value (\<open>Inl\<close>) or the returned value (\<open>Inr\<close>).

  A JavaScript string is a sequence of UTF-16 code units and \<^verbatim>\<open>.length\<close> counts code
  units. The model writes a code unit as a \<open>char\<close>, so it covers the strings whose code
  units are below 256; \<open>length\<close> is \<^verbatim>\<open>.length\<close> on them.
\<close>

subsection \<open>String primitives of the JavaScript runtime\<close>

text \<open>\<^verbatim>\<open>String.prototype.trim\<close>: the white space and line terminator code units below 256
  are TAB, LF, VT, FF, CR, SPACE and NO-BREAK SPACE.\<close>

definition isWhiteSpace :: "char \<Rightarrow> bool" where
  "isWhiteSpace c = (of_char c \<in> {9, 10, 11, 12, 13, 32, 160 :: nat})"

definition trim :: "string \<Rightarrow> string" where
  "trim s = rev (dropWhile isWhiteSpace (rev (dropWhile isWhiteSpace s)))"

text \<open>\<^verbatim>\<open>String.prototype.toLowerCase\<close> on code units below 256: A-Z and the capital letters
  U+00C0..U+00DE (without the multiplication sign U+00D7) move up by 32.\<close>

definition toLowerCase_unit :: "char \<Rightarrow> char" where
  "toLowerCase_unit c =
     (let n = of_char c :: nat
      in if (65 \<le> n \<and> n \<le> 90) \<or> (192 \<le> n \<and> n \<le> 222 \<and> n \<noteq> 215)
         then char_of (n + 32) else c)"

definition toLowerCase :: "string \<Rightarrow> string" where
  "toLowerCase s = map toLowerCase_unit s"

text \<open>\<^verbatim>\<open>a || b\<close> on an optional string: \<^verbatim>\<open>undefined\<close> and the empty string are falsy.\<close>

fun or_else :: "string option \<Rightarrow> string \<Rightarrow> string" where
  "or_else None d = d"
| "or_else (Some s) d = (if s = [] then d else s)"

text \<open>A template literal renders \<^verbatim>\<open>undefined\<close> as the word itself.\<close>

fun render :: "string option \<Rightarrow> string" where
  "render None = ''undefined''"
| "render (Some s) = s"

text \<open>A destructuring default replaces \<^verbatim>\<open>undefined\<close> only.\<close>

fun default_to :: "'a option \<Rightarrow> 'a \<Rightarrow> 'a" where
  "default_to None d = d"
| "default_to (Some v) d = v"

text \<open>Number-to-string of a non-negative integer, as in \<^verbatim>\<open>`${index + 1}`\<close>.\<close>

definition digit :: "nat \<Rightarrow> char" where
  "digit d = ''0123456789'' ! d"

function decimal :: "nat \<Rightarrow> string" where
  "decimal n = (if n < 10 then [digit n] else decimal (n div 10) @ [digit (n mod 10)])"
  by pat_completeness auto
termination
  by (relation "measure id") auto

declare decimal.simps [simp del]

text \<open>\<^verbatim>\<open>path.basename\<close> (POSIX flavour): the last segment, trailing slashes ignored.\<close>

definition basename :: "string \<Rightarrow> string" where
  "basename p = rev (takeWhile (\<lambda>c. c \<noteq> CHR ''/'') (dropWhile (\<lambda>c. c = CHR ''/'') (rev p)))"

subsection \<open>Regular expressions\<close>

text \<open>
  The fragment of the regular expression language that the literal
  \<^verbatim>\<open>/\.(png|jpe?g|gif|bmp|webp|tiff?)$/i\<close> uses: characters, sequence, alternation,
  the optional \<^verbatim>\<open>?\<close>, and the end assertion \<^verbatim>\<open>$\<close> (without the \<^verbatim>\<open>m\<close> flag: end of
  input). \<open>rmatch\<close> is the backtracking matcher: all the remainders of the input after
  a match of the pattern at its start, in the order of preference.
\<close>

datatype regex =
    Lit char
  | Seq regex regex
  | Alt regex regex
  | Opt regex
  | End

text \<open>Canonicalize of a code unit under the \<^verbatim>\<open>i\<close> flag (no \<^verbatim>\<open>u\<close> flag): the upper case
  mapping where it is a single code unit, except that a non-ASCII unit never maps to an
  ASCII one. For units below 256: a-z and U+00E0..U+00FE (without the division sign
  U+00F7) move down by 32, U+00FF maps to U+0178 and the micro sign U+00B5 to U+039C.\<close>

definition canonicalize :: "nat \<Rightarrow> nat" where
  "canonicalize n =
     (if (97 \<le> n \<and> n \<le> 122) \<or> (224 \<le> n \<and> n \<le> 254 \<and> n \<noteq> 247) then n - 32
      else if n = 255 then 376
      else if n = 181 then 924
      else n)"

definition char_matches :: "bool \<Rightarrow> char \<Rightarrow> char \<Rightarrow> bool" where
  "char_matches ignoreCase c d =
     (if ignoreCase then canonicalize (of_char c) = canonicalize (of_char d) else c = d)"

fun rmatch :: "bool \<Rightarrow> regex \<Rightarrow> string \<Rightarrow> string list" where
  "rmatch i (Lit c) s =
     (case s of [] \<Rightarrow> [] | d # rest \<Rightarrow> if char_matches i c d then [rest] else [])"
| "rmatch i (Seq a b) s = concat (map (rmatch i b) (rmatch i a s))"
| "rmatch i (Alt a b) s = rmatch i a s @ rmatch i b s"
| "rmatch i (Opt a) s = rmatch i a s @ [s]"
| "rmatch i End s = (if s = [] then [s] else [])"

text \<open>\<^verbatim>\<open>RegExp.prototype.test\<close> of a pattern without the \<^verbatim>\<open>g\<close> and \<^verbatim>\<open>y\<close> flags: a match
  starting at some index of the input.\<close>

definition regex_test :: "bool \<Rightarrow> regex \<Rightarrow> string \<Rightarrow> bool" where
  "regex_test i r s = list_ex (\<lambda>k. rmatch i r (drop k s) \<noteq> []) [0 ..< Suc (length s)]"

text \<open>\<^verbatim>\<open>/\.(png|jpe?g|gif|bmp|webp|tiff?)$/i\<close> (the flag is the first argument of
  \<open>regex_test\<close>).\<close>

definition image_extension_regex :: regex where
  "image_extension_regex =
     Seq (Lit CHR ''.'')
      (Seq (Alt (Seq (Lit CHR ''p'') (Seq (Lit CHR ''n'') (Lit CHR ''g'')))
           (Alt (Seq (Lit CHR ''j'') (Seq (Lit CHR ''p'')
                  (Seq (Opt (Lit CHR ''e'')) (Lit CHR ''g''))))
           (Alt (Seq (Lit CHR ''g'') (Seq (Lit CHR ''i'') (Lit CHR ''f'')))
           (Alt (Seq (Lit CHR ''b'') (Seq (Lit CHR ''m'') (Lit CHR ''p'')))
           (Alt (Seq (Lit CHR ''w'') (Seq (Lit CHR ''e'') (Seq (Lit CHR ''b'') (Lit CHR ''p''))))
                (Seq (Lit CHR ''t'') (Seq (Lit CHR ''i'') (Seq (Lit CHR ''f'')
                  (Opt (Lit CHR ''f''))))))))))
           End)"

subsection \<open>Data\<close>

text \<open>\<^verbatim>\<open>req.app.locals?.ocr\<close> (\<^verbatim>\<open>TCustomConfig['ocr']\<close>) with its fields
  \<^verbatim>\<open>apiKey\<close>, \<^verbatim>\<open>baseURL\<close> and \<^verbatim>\<open>mistralModel\<close>; each may be missing.\<close>

record ocr_config =
  ocr_apiKey :: "string option"
  ocr_baseURL :: "string option"
  ocr_mistralModel :: "string option"

text \<open>The request: \<^verbatim>\<open>req.user.id\<close> and \<^verbatim>\<open>req.app.locals?.ocr\<close>, which is
  \<^verbatim>\<open>undefined\<close> when \<^verbatim>\<open>locals\<close> or its \<^verbatim>\<open>ocr\<close> entry is missing.\<close>

record request =
  user_id :: string
  ocr :: "ocr_config option"

text \<open>\<^verbatim>\<open>Express.Multer.File\<close>: the code guards \<^verbatim>\<open>mimetype\<close> and \<^verbatim>\<open>originalname\<close>
  with \<^verbatim>\<open>|| ''\<close>, so they may be missing.\<close>

record multer_file =
  path :: string
  originalname :: "string option"
  mimetype :: "string option"

text \<open>The provider's replies: \<^verbatim>\<open>{id}\<close> of the upload, \<^verbatim>\<open>{url}\<close> of the signed URL
  call, and the OCR result. \<^verbatim>\<open>OCRResult\<close> is \<^verbatim>\<open>{pages: [{markdown, images:
  [{image_base64}]}]}\<close>; the code guards \<^verbatim>\<open>page.images\<close> and \<^verbatim>\<open>image.image_base64\<close>,
  so both may be missing.\<close>

record mistral_file =
  file_id :: string

record signed_url_response =
  signed_url :: string

record ocr_image =
  image_base64 :: "string option"

record ocr_page =
  markdown :: string
  page_images :: "ocr_image list option"

record ocr_result =
  pages :: "ocr_page list"

text \<open>The object \<^verbatim>\<open>uploadMistralOCR\<close> returns: \<^verbatim>\<open>{filename, bytes, filepath, text,
  images}\<close> (the last two are \<open>ocr_text\<close> and \<open>ocr_images\<close> here).\<close>

record ocr_output =
  filename :: "string option"
  bytes :: nat
  filepath :: string
  ocr_text :: string
  ocr_images :: "string list"

text \<open>Request payloads: the multipart form of the upload and the JSON body of the OCR
  call. A form part is a plain field or the read stream of a file on disk with the
  file name it is sent under.\<close>

datatype form_value = FormField string | ReadStream string string

type_synonym form_data = "(string \<times> form_value) list"

datatype json = JBool bool | JString string | JObject "(string \<times> json) list"

text \<open>The axios request configuration: the headers and the two size limits, which are
  unset (\<open>None\<close>) or a bound (\<open>\<infinity>\<close> for \<^verbatim>\<open>Infinity\<close>).\<close>

record axios_config =
  headers :: "(string \<times> string) list"
  maxBodyLength :: "enat option"
  maxContentLength :: "enat option"

text \<open>Thrown values: a \<^verbatim>\<open>TypeError\<close> of the runtime (a property read on
  \<^verbatim>\<open>undefined\<close>), the rejection \<open>x\<close> of a collaborator, passed on as it is, and
  \<^verbatim>\<open>new Error(message)\<close>.\<close>

datatype 'x js_error = TypeError | Rejection 'x | Error string

text \<open>The interactions with the outside world, each with its outcome where it has
  one: the secret store lookup, the three HTTP calls (\<open>Inl\<close> is a rejected promise,
  \<open>Inr\<close> the \<^verbatim>\<open>data\<close> of the response) and \<^verbatim>\<open>logger.error(label, error.message)\<close>.\<close>

datatype 'x event =
    is_LoadAuthValues: LoadAuthValues (lookup_userId: string) (lookup_authFields: "string list")
      (lookup_optional: "string set") (lookup_outcome: "'x + (string \<times> string) list")
  | is_AxiosPostForm: AxiosPostForm string form_data axios_config "'x + mistral_file"
  | is_AxiosGet: AxiosGet string axios_config "'x + signed_url_response"
  | is_AxiosPostJson: AxiosPostJson string json axios_config "'x + ocr_result"
  | is_LoggerError: LoggerError string string

text \<open>
  What the module imports and does not define. From \<^verbatim>\<open>librechat-data-provider\<close>:
  \<^verbatim>\<open>envVarRegex\<close> (through its \<^verbatim>\<open>test\<close>), \<^verbatim>\<open>extractVariableName\<close>,
  \<^verbatim>\<open>extractEnvVariable\<close> and \<^verbatim>\<open>FileSources.mistral_ocr\<close>; \<^verbatim>\<open>loadAuthValues\<close>, with
  the returned object as the list of its entries; \<^verbatim>\<open>logAxiosError\<close>; the axios
  instance, one function for each of the three calls the module makes;
  \<^verbatim>\<open>form.getHeaders()\<close> of \<^verbatim>\<open>form-data\<close>; and the \<^verbatim>\<open>message\<close> property of a
  rejection. They are parameters of the model. \<^verbatim>\<open>envVarRegex\<close> is taken without the
  \<^verbatim>\<open>g\<close> and \<^verbatim>\<open>y\<close> flags, so that its \<^verbatim>\<open>test\<close> is a function of the string alone,
  and \<^verbatim>\<open>extractVariableName\<close> as returning a string on the strings it is applied to,
  those that \<^verbatim>\<open>envVarRegex\<close> matches.
\<close>

record 'x world =
  envVarRegex_test :: "string \<Rightarrow> bool"
  extractVariableName :: "string \<Rightarrow> string"
  extractEnvVariable :: "string \<Rightarrow> string"
  FileSources_mistral_ocr :: string
  loadAuthValues :: "string \<Rightarrow> string list \<Rightarrow> string set \<Rightarrow> 'x + (string \<times> string) list"
  logAxiosError :: "'x js_error \<Rightarrow> string \<Rightarrow> string"
  axios_post_form :: "string \<Rightarrow> form_data \<Rightarrow> axios_config \<Rightarrow> 'x + mistral_file"
  axios_get :: "string \<Rightarrow> axios_config \<Rightarrow> 'x + signed_url_response"
  axios_post_json :: "string \<Rightarrow> json \<Rightarrow> axios_config \<Rightarrow> 'x + ocr_result"
  form_getHeaders :: "form_data \<Rightarrow> (string \<times> string) list"
  error_message :: "'x \<Rightarrow> string"

subsection \<open>Sequencing\<close>

text \<open>A computation: the interactions it performed and how it ended. \<open>bind\<close> is
  \<^verbatim>\<open>await\<close> followed by the rest of the function, \<open>try_catch\<close> is
  \<^verbatim>\<open>try { ... } catch (error) { ... }\<close>.\<close>

type_synonym ('x, 'a) io = "'x event list \<times> ('x js_error + 'a)"

definition ret :: "'a \<Rightarrow> ('x, 'a) io" where
  "ret v = ([], Inr v)"

definition throw :: "'x js_error \<Rightarrow> ('x, 'a) io" where
  "throw e = ([], Inl e)"

definition bind :: "('x, 'a) io \<Rightarrow> ('a \<Rightarrow> ('x, 'b) io) \<Rightarrow> ('x, 'b) io" where
  "bind m f =
     (case m of
        (t, Inl e) \<Rightarrow> (t, Inl e)
      | (t, Inr v) \<Rightarrow> (case f v of (t', r) \<Rightarrow> (t @ t', r)))"

definition try_catch :: "('x, 'a) io \<Rightarrow> ('x js_error \<Rightarrow> ('x, 'a) io) \<Rightarrow> ('x, 'a) io" where
  "try_catch m h =
     (case m of
        (t, Inl e) \<Rightarrow> (case h e of (t', r) \<Rightarrow> (t @ t', r))
      | (t, Inr v) \<Rightarrow> (t, Inr v))"

subsection \<open>The three provider calls\<close>

text \<open>\<^verbatim>\<open>uploadDocumentToMistral({filePath, fileName = '', apiKey, baseURL =
  'https://api.mistral.ai/v1'})\<close>: the multipart POST to \<^verbatim>\<open>${baseURL}/files\<close>; a
  rejection is logged and thrown again.\<close>

definition uploadDocumentToMistral ::
  "'x world \<Rightarrow> string \<Rightarrow> string option \<Rightarrow> string option \<Rightarrow> string option
    \<Rightarrow> ('x, mistral_file) io" where
  "uploadDocumentToMistral w filePath fileNameArg apiKey baseURLArg =
     (let fileName = default_to fileNameArg '''';
          baseURL = default_to baseURLArg ''https://api.mistral.ai/v1'';
          actualFileName = or_else (Some fileName) (basename filePath);
          form = [(''purpose'', FormField ''ocr''), (''file'', ReadStream filePath actualFileName)];
          target = baseURL @ ''/files'';
          config = \<lparr>headers = (''Authorization'', ''Bearer '' @ render apiKey) # form_getHeaders w form,
                    maxBodyLength = Some \<infinity>, maxContentLength = Some \<infinity>\<rparr>
      in case axios_post_form w target form config of
           Inr data \<Rightarrow> ([AxiosPostForm target form config (Inr data)], Inr data)
         | Inl error \<Rightarrow>
             ([AxiosPostForm target form config (Inl error),
               LoggerError ''Error uploading document to Mistral:'' (error_message w error)],
              Inl (Rejection error)))"

text \<open>\<^verbatim>\<open>getSignedUrl({apiKey, fileId, expiry = 24, baseURL = ...})\<close>\<close>

definition getSignedUrl ::
  "'x world \<Rightarrow> string option \<Rightarrow> string \<Rightarrow> nat option \<Rightarrow> string option
    \<Rightarrow> ('x, signed_url_response) io" where
  "getSignedUrl w apiKey fileId expiryArg baseURLArg =
     (let expiry = default_to expiryArg 24;
          baseURL = default_to baseURLArg ''https://api.mistral.ai/v1'';
          target = baseURL @ ''/files/'' @ fileId @ ''/url?expiry='' @ decimal expiry;
          config = \<lparr>headers = [(''Authorization'', ''Bearer '' @ render apiKey)],
                    maxBodyLength = None, maxContentLength = None\<rparr>
      in case axios_get w target config of
           Inr data \<Rightarrow> ([AxiosGet target config (Inr data)], Inr data)
         | Inl error \<Rightarrow>
             ([AxiosGet target config (Inl error),
               LoggerError ''Error fetching signed URL:'' (error_message w error)],
              Inl (Rejection error)))"

text \<open>The JSON body \<^verbatim>\<open>performOCR\<close> posts.\<close>

definition ocr_body :: "string \<Rightarrow> string \<Rightarrow> string \<Rightarrow> string \<Rightarrow> json" where
  "ocr_body model documentType documentKey url =
     JObject [(''model'', JString model),
              (''include_image_base64'', JBool False),
              (''document'', JObject [(''type'', JString documentType),
                                      (documentKey, JString url)])]"

text \<open>\<^verbatim>\<open>performOCR({apiKey, url, documentType = 'document_url', model =
  'mistral-ocr-latest', baseURL = ...})\<close>\<close>

definition performOCR ::
  "'x world \<Rightarrow> string option \<Rightarrow> string \<Rightarrow> string option \<Rightarrow> string option \<Rightarrow> string option
    \<Rightarrow> ('x, ocr_result) io" where
  "performOCR w apiKey url documentTypeArg modelArg baseURLArg =
     (let documentType = default_to documentTypeArg ''document_url'';
          model = default_to modelArg ''mistral-ocr-latest'';
          baseURL = default_to baseURLArg ''https://api.mistral.ai/v1'';
          documentKey = (if documentType = ''image_url'' then ''image_url'' else ''document_url'');
          target = baseURL @ ''/ocr'';
          body = ocr_body model documentType documentKey url;
          config = \<lparr>headers = [(''Content-Type'', ''application/json''),
                               (''Authorization'', ''Bearer '' @ render apiKey)],
                    maxBodyLength = None, maxContentLength = None\<rparr>
      in case axios_post_json w target body config of
           Inr data \<Rightarrow> ([AxiosPostJson target body config (Inr data)], Inr data)
         | Inl error \<Rightarrow>
             ([AxiosPostJson target body config (Inl error),
               LoggerError ''Error performing OCR:'' (error_message w error)],
              Inl (Rejection error)))"

subsection \<open>uploadMistralOCR\<close>

text \<open>Lines 134 to 160: the API key and the base URL, from the configuration or from
  the secret store. \<^verbatim>\<open>authValues[name]\<close> is \<^verbatim>\<open>undefined\<close> for a name the store did
  not return.\<close>

definition credentials ::
  "'x world \<Rightarrow> request \<Rightarrow> ocr_config \<Rightarrow> ('x, string option \<times> string option) io" where
  "credentials w req ocrConfig =
     (let apiKeyConfig = or_else (ocr_apiKey ocrConfig) '''';
          baseURLConfig = or_else (ocr_baseURL ocrConfig) '''';
          isApiKeyEnvVar = envVarRegex_test w apiKeyConfig;
          isBaseURLEnvVar = envVarRegex_test w baseURLConfig;
          isApiKeyEmpty = (trim apiKeyConfig = []);
          isBaseURLEmpty = (trim baseURLConfig = [])
      in if isApiKeyEnvVar \<or> isBaseURLEnvVar \<or> isApiKeyEmpty \<or> isBaseURLEmpty then
           (let apiKeyVarName =
                  (if isApiKeyEnvVar then extractVariableName w apiKeyConfig else ''OCR_API_KEY'');
                baseURLVarName =
                  (if isBaseURLEnvVar then extractVariableName w baseURLConfig else ''OCR_BASEURL'');
                authFields = [baseURLVarName, apiKeyVarName];
                optional = {baseURLVarName}
            in case loadAuthValues w (user_id req) authFields optional of
                 Inl error \<Rightarrow>
                   ([LoadAuthValues (user_id req) authFields optional (Inl error)],
                    Inl (Rejection error))
               | Inr authValues \<Rightarrow>
                   ([LoadAuthValues (user_id req) authFields optional (Inr authValues)],
                    Inr (map_of authValues apiKeyVarName, map_of authValues baseURLVarName)))
         else ret (Some apiKeyConfig, Some baseURLConfig))"

text \<open>Lines 169 to 172: the model name.\<close>

definition ocr_model :: "'x world \<Rightarrow> ocr_config \<Rightarrow> string" where
  "ocr_model w ocrConfig =
     (let modelConfig = or_else (ocr_mistralModel ocrConfig) ''''
      in if envVarRegex_test w modelConfig then extractEnvVariable w modelConfig
         else or_else (Some (trim modelConfig)) ''mistral-ocr-latest'')"

text \<open>Lines 180 to 184: the media kind.\<close>

definition isImage :: "multer_file \<Rightarrow> bool" where
  "isImage file =
     (let mimetype = toLowerCase (or_else (mimetype file) '''');
          originalname = or_else (originalname file) ''''
      in prefix ''image'' mimetype \<or> regex_test True image_extension_regex originalname)"

definition documentType_of :: "multer_file \<Rightarrow> string" where
  "documentType_of file = (if isImage file then ''image_url'' else ''document_url'')"

text \<open>Lines 194 to 210: the two nested \<^verbatim>\<open>forEach\<close> loops. \<open>n\<close> is
  \<^verbatim>\<open>ocrResult.pages.length\<close>, \<open>index\<close> the index of the first page of the list.\<close>

fun forEach_image :: "ocr_image list \<Rightarrow> string list \<Rightarrow> string list" where
  "forEach_image [] images = images"
| "forEach_image (img # rest) images =
     forEach_image rest
       (case image_base64 img of
          None \<Rightarrow> images
        | Some b \<Rightarrow> if b \<noteq> [] then images @ [b] else images)"

fun forEach_page ::
  "nat \<Rightarrow> nat \<Rightarrow> ocr_page list \<Rightarrow> string \<times> string list \<Rightarrow> string \<times> string list" where
  "forEach_page n index [] acc = acc"
| "forEach_page n index (page # rest) (aggregatedText, images) =
     (let headed = (if n > 1
                    then aggregatedText @ ''# PAGE '' @ decimal (index + 1) @ ''\<newline>''
                    else aggregatedText);
          aggregatedText' = headed @ markdown page @ ''\<newline>\<newline>'';
          images' = (case page_images page of
                       None \<Rightarrow> images
                     | Some imgs \<Rightarrow> if length imgs > 0 then forEach_image imgs images else images)
      in forEach_page n (index + 1) rest (aggregatedText', images'))"

text \<open>Lines 194 to 218: the loops from the empty text and the empty list, and the
  returned object.\<close>

definition aggregate :: "'x world \<Rightarrow> multer_file \<Rightarrow> ocr_result \<Rightarrow> ocr_output" where
  "aggregate w file ocrResult =
     (case forEach_page (length (pages ocrResult)) 0 (pages ocrResult) ('''', []) of
        (aggregatedText, images) \<Rightarrow>
          \<lparr>filename = originalname file,
           bytes = length aggregatedText * 4,
           filepath = FileSources_mistral_ocr w,
           ocr_text = aggregatedText,
           ocr_images = images\<rparr>)"

text \<open>\<^verbatim>\<open>uploadMistralOCR({req, file, file_id, entity_id})\<close>; the last two arguments are
  not used.\<close>

definition uploadMistralOCR :: "'x world \<Rightarrow> request \<Rightarrow> multer_file \<Rightarrow> ('x, ocr_output) io" where
  "uploadMistralOCR w req file =
     try_catch
       (case ocr req of
          None \<Rightarrow> throw TypeError
        | Some ocrConfig \<Rightarrow>
            bind (credentials w req ocrConfig) (\<lambda>(apiKey, baseURL).
            bind (uploadDocumentToMistral w (path file) (originalname file) apiKey baseURL)
              (\<lambda>mistralFile.
            let model = ocr_model w ocrConfig in
            bind (getSignedUrl w apiKey (file_id mistralFile) None baseURL)
              (\<lambda>signedUrlResponse.
            let documentType = documentType_of file in
            bind (performOCR w apiKey (signed_url signedUrlResponse) (Some documentType)
                    (Some model) baseURL)
              (\<lambda>ocrResult.
            ret (aggregate w file ocrResult))))))
       (\<lambda>error. throw (Error (logAxiosError w error
                   ''Error uploading document to Mistral OCR API'')))"

subsection \<open>The media kind in the words of the specification\<close>

text \<open>The fixed image-extension set, and a file name whose extension is, case-insensitively,
  one of its members: the name, in lower case, ends with a dot and the member.\<close>

definition image_extensions :: "string list" where
  "image_extensions = [''png'', ''jpg'', ''jpeg'', ''gif'', ''bmp'', ''webp'', ''tiff'', ''tif'']"

definition has_image_extension :: "string \<Rightarrow> bool" where
  "has_image_extension name =
     list_ex (\<lambda>e. suffix (CHR ''.'' # e) (toLowerCase name)) image_extensions"

text \<open>The classification with the MIME type compared as it is written: image if the MIME
  type starts with \<^verbatim>\<open>image\<close> or the extension is in the set.\<close>

definition stated_isImage :: "multer_file \<Rightarrow> bool" where
  "stated_isImage file =
     (prefix ''image'' (or_else (mimetype file) '''') \<or>
      has_image_extension (or_else (originalname file) ''''))"

subsection \<open>The secret store\<close>

text \<open>
  Modelled from the spec: \<^verbatim>\<open>loadAuthValues\<close> of \<^verbatim>\<open>~/server/services/Tools/credentials\<close>,
  which the module imports and which is not among the sources. The specification gives
  its contract: a batched lookup \<^verbatim>\<open>resolve(userId, variableNames, optionalSet)\<close> that
  returns a mapping from variable name to value; the absence of an optional name is not
  an error, the absence of a required name fails the resolution. \<open>store\<close> holds the
  entries of the requesting user, \<open>failure\<close> is the value a failed resolution rejects
  with.
\<close>

definition secret_store ::
  "'x \<Rightarrow> (string \<times> string) list \<Rightarrow> string \<Rightarrow> string list \<Rightarrow> string set
    \<Rightarrow> 'x + (string \<times> string) list" where
  "secret_store failure store userId authFields optional =
     (if list_all (\<lambda>f. f \<in> optional \<or> map_of store f \<noteq> None) authFields
      then Inr (filter (\<lambda>entry. fst entry \<in> set authFields) store)
      else Inl failure)"

subsection \<open>A concrete world\<close>

text \<open>
  An instance of the parameters for the closed examples below. Placeholders are written
  \<^verbatim>\<open>${NAME}\<close>; the secret store is \<open>secret_store\<close> on a list of entries; the upload and the OCR call answer with the two
  given replies; a rejection is its own message.
\<close>

definition sample_world ::
  "(string \<times> string) list \<Rightarrow> string + mistral_file \<Rightarrow> string + ocr_result \<Rightarrow> string world" where
  "sample_world store upload_reply ocr_reply =
     \<lparr>envVarRegex_test = (\<lambda>s. 3 < length s \<and> take 2 s = ''${'' \<and> last s = CHR ''}''),
      extractVariableName = (\<lambda>s. butlast (drop 2 s)),
      extractEnvVariable = (\<lambda>s. or_else (map_of store (butlast (drop 2 s))) s),
      FileSources_mistral_ocr = ''mistral_ocr'',
      loadAuthValues = secret_store ''No auth value found'' store,
      logAxiosError = (\<lambda>error message.
        message @ '': '' @
        (case error of TypeError \<Rightarrow> ''TypeError'' | Rejection x \<Rightarrow> x | Error m \<Rightarrow> m)),
      axios_post_form = (\<lambda>target form config. upload_reply),
      axios_get = (\<lambda>target config. Inr \<lparr>signed_url = ''https://files.example/signed''\<rparr>),
      axios_post_json = (\<lambda>target body config. ocr_reply),
      form_getHeaders = (\<lambda>form. [(''content-type'', ''multipart/form-data; boundary=b'')]),
      error_message = (\<lambda>x. x)\<rparr>"

definition sample_request :: "string option \<Rightarrow> string option \<Rightarrow> request" where
  "sample_request k b =
     \<lparr>user_id = ''user-1'',
      ocr = Some \<lparr>ocr_apiKey = k, ocr_baseURL = b, ocr_mistralModel = None\<rparr>\<rparr>"

definition sample_file :: "string \<Rightarrow> string \<Rightarrow> multer_file" where
  "sample_file name mime =
     \<lparr>path = ''/tmp/uploads/0001'', originalname = Some name, mimetype = Some mime\<rparr>"

definition hello_result :: ocr_result where
  "hello_result = \<lparr>pages = [\<lparr>markdown = ''Hello'', page_images = Some []\<rparr>]\<rparr>"

definition two_page_result :: ocr_result where
  "two_page_result =
     \<lparr>pages = [\<lparr>markdown = ''One'',
                page_images = Some [\<lparr>image_base64 = Some ''QQ==''\<rparr>, \<lparr>image_base64 = None\<rparr>]\<rparr>,
               \<lparr>markdown = ''Two'',
                page_images = Some [\<lparr>image_base64 = Some ''''\<rparr>, \<lparr>image_base64 = Some ''Qg==''\<rparr>]\<rparr>]\<rparr>"

section \<open>Properties\<close>

subsection \<open>The runs of uploadMistralOCR\<close>

lemma uploadMistralOCR_cases [case_names no_config credentials_fail upload_fail url_fail ocr_fail success]:
  fixes w :: "'x world"
  obtains
    "ocr req = None"
    "uploadMistralOCR w req file =
       ([], Inl (Error (logAxiosError w TypeError ''Error uploading document to Mistral OCR API'')))"
  | c t1 e where
    "ocr req = Some c"
    "credentials w req c = (t1, Inl e)"
    "uploadMistralOCR w req file =
       (t1, Inl (Error (logAxiosError w e ''Error uploading document to Mistral OCR API'')))"
  | c t1 k b t2 e where
    "ocr req = Some c"
    "credentials w req c = (t1, Inr (k, b))"
    "uploadDocumentToMistral w (path file) (originalname file) k b = (t2, Inl e)"
    "uploadMistralOCR w req file =
       (t1 @ t2, Inl (Error (logAxiosError w e ''Error uploading document to Mistral OCR API'')))"
  | c t1 k b t2 f t3 e where
    "ocr req = Some c"
    "credentials w req c = (t1, Inr (k, b))"
    "uploadDocumentToMistral w (path file) (originalname file) k b = (t2, Inr f)"
    "getSignedUrl w k (file_id f) None b = (t3, Inl e)"
    "uploadMistralOCR w req file =
       (t1 @ t2 @ t3, Inl (Error (logAxiosError w e ''Error uploading document to Mistral OCR API'')))"
  | c t1 k b t2 f t3 u t4 e where
    "ocr req = Some c"
    "credentials w req c = (t1, Inr (k, b))"
    "uploadDocumentToMistral w (path file) (originalname file) k b = (t2, Inr f)"
    "getSignedUrl w k (file_id f) None b = (t3, Inr u)"
    "performOCR w k (signed_url u) (Some (documentType_of file)) (Some (ocr_model w c)) b
       = (t4, Inl e)"
    "uploadMistralOCR w req file =
       (t1 @ t2 @ t3 @ t4,
        Inl (Error (logAxiosError w e ''Error uploading document to Mistral OCR API'')))"
  | c t1 k b t2 f t3 u t4 r where
    "ocr req = Some c"
    "credentials w req c = (t1, Inr (k, b))"
    "uploadDocumentToMistral w (path file) (originalname file) k b = (t2, Inr f)"
    "getSignedUrl w k (file_id f) None b = (t3, Inr u)"
    "performOCR w k (signed_url u) (Some (documentType_of file)) (Some (ocr_model w c)) b
       = (t4, Inr r)"
    "uploadMistralOCR w req file = (t1 @ t2 @ t3 @ t4, Inr (aggregate w file r))"
proof (cases "ocr req")
  case None
  then show ?thesis
    using that(1) by (simp add: uploadMistralOCR_def try_catch_def throw_def)
next
  case (Some c)
  obtain t1 r1 where c1: "credentials w req c = (t1, r1)"
    by (cases "credentials w req c")
  show ?thesis
  proof (cases r1)
    case (Inl e)
    with Some c1 show ?thesis
      using that(2) [of c t1 e]
      by (simp add: uploadMistralOCR_def try_catch_def throw_def bind_def)
  next
    case (Inr kb)
    obtain k b where kb: "kb = (k, b)" by (cases kb)
    obtain t2 r2 where c2:
      "uploadDocumentToMistral w (path file) (originalname file) k b = (t2, r2)"
      by (cases "uploadDocumentToMistral w (path file) (originalname file) k b")
    show ?thesis
    proof (cases r2)
      case (Inl e)
      with Some c1 Inr kb c2 show ?thesis
        using that(3) [of c t1 k b t2 e]
        by (simp add: uploadMistralOCR_def try_catch_def throw_def bind_def)
    next
      case f: (Inr f)
      obtain t3 r3 where c3: "getSignedUrl w k (file_id f) None b = (t3, r3)"
        by (cases "getSignedUrl w k (file_id f) None b")
      show ?thesis
      proof (cases r3)
        case (Inl e)
        with Some c1 Inr kb c2 f c3 show ?thesis
          using that(4) [of c t1 k b t2 f t3 e]
          by (simp add: uploadMistralOCR_def try_catch_def throw_def bind_def)
      next
        case u: (Inr u)
        obtain t4 r4 where c4:
          "performOCR w k (signed_url u) (Some (documentType_of file)) (Some (ocr_model w c)) b
             = (t4, r4)"
          by (cases "performOCR w k (signed_url u) (Some (documentType_of file))
                       (Some (ocr_model w c)) b")
        show ?thesis
        proof (cases r4)
          case (Inl e)
          with Some c1 Inr kb c2 f c3 u c4 show ?thesis
            using that(5) [of c t1 k b t2 f t3 u t4 e]
            by (simp add: uploadMistralOCR_def try_catch_def throw_def bind_def)
        next
          case r: (Inr r)
          with Some c1 Inr kb c2 f c3 u c4 show ?thesis
            using that(6) [of c t1 k b t2 f t3 u t4 r]
            by (simp add: uploadMistralOCR_def try_catch_def throw_def bind_def ret_def)
        qed
      qed
    qed
  qed
qed


lemma credentials_events:
  "\<forall>e \<in> set (fst (credentials w req c)). is_LoadAuthValues e"
  by (simp add: credentials_def Let_def ret_def split: sum.splits)

lemma uploadDocumentToMistral_Inl:
  assumes "uploadDocumentToMistral w filePath fileName k b = (t, Inl e)"
  shows "\<exists>target form config x. e = Rejection x \<and>
           t = [AxiosPostForm target form config (Inl x),
                LoggerError ''Error uploading document to Mistral:'' (error_message w x)]"
  using assms by (auto simp: uploadDocumentToMistral_def Let_def split: sum.splits)

lemma uploadDocumentToMistral_Inr:
  assumes "uploadDocumentToMistral w filePath fileName k b = (t, Inr f)"
  shows "\<exists>target form config. t = [AxiosPostForm target form config (Inr f)]"
  using assms by (auto simp: uploadDocumentToMistral_def Let_def split: sum.splits)

lemma getSignedUrl_events:
  "\<forall>e \<in> set (fst (getSignedUrl w k fileId expiry b)). is_AxiosGet e \<or> is_LoggerError e"
  by (simp add: getSignedUrl_def Let_def split: sum.splits)

lemma performOCR_Inl:
  assumes "performOCR w k u d m b = (t, Inl e)"
  shows "\<exists>target body config x. e = Rejection x \<and>
           t = [AxiosPostJson target body config (Inl x),
                LoggerError ''Error performing OCR:'' (error_message w x)]"
  using assms by (auto simp: performOCR_def Let_def split: sum.splits)

lemma performOCR_Inr:
  assumes "performOCR w k u d m b = (t, Inr r)"
  shows "\<exists>target body config. t = [AxiosPostJson target body config (Inr r)]"
  using assms by (auto simp: performOCR_def Let_def split: sum.splits)

lemma ocr_reply_gives_result:
  fixes w :: "'x world"
  assumes "AxiosPostJson target body config (Inr r) \<in> set (fst (uploadMistralOCR w req file))"
  shows "snd (uploadMistralOCR w req file) = Inr (aggregate w file r)"
proof (cases rule: uploadMistralOCR_cases [of req w "file"])
  case no_config
  with assms show ?thesis by simp
next
  case (credentials_fail c t1 e)
  with assms credentials_events [of w req c] show ?thesis by auto
next
  case (upload_fail c t1 k b t2 e)
  with assms credentials_events [of w req c] uploadDocumentToMistral_Inl [OF upload_fail(3)]
  show ?thesis by auto
next
  case (url_fail c t1 k b t2 f t3 e)
  with assms credentials_events [of w req c] uploadDocumentToMistral_Inr [OF url_fail(3)]
    getSignedUrl_events [of w k "file_id f" None b]
  show ?thesis by auto
next
  case (ocr_fail c t1 k b t2 f t3 u t4 e)
  with assms credentials_events [of w req c] uploadDocumentToMistral_Inr [OF ocr_fail(3)]
    getSignedUrl_events [of w k "file_id f" None b] performOCR_Inl [OF ocr_fail(5)]
  show ?thesis by auto
next
  case (success c t1 k b t2 f t3 u t4 r')
  with assms credentials_events [of w req c] uploadDocumentToMistral_Inr [OF success(3)]
    getSignedUrl_events [of w k "file_id f" None b] performOCR_Inr [OF success(5)]
  show ?thesis by auto
qed

lemma result_has_ocr_reply:
  fixes w :: "'x world"
  assumes "snd (uploadMistralOCR w req file) = Inr out"
  shows "\<exists>target body config r.
           AxiosPostJson target body config (Inr r) \<in> set (fst (uploadMistralOCR w req file)) \<and>
           out = aggregate w file r"
proof (cases rule: uploadMistralOCR_cases [of req w "file"])
  case (success c t1 k b t2 f t3 u t4 r)
  from performOCR_Inr [OF success(5)] obtain target body config
    where "t4 = [AxiosPostJson target body config (Inr r)]" by blast
  with success(6) assms
  have "AxiosPostJson target body config (Inr r) \<in> set (fst (uploadMistralOCR w req file))"
    and "out = aggregate w file r" by simp_all
  then show ?thesis by blast
qed (use assms in auto)

subsection \<open>The loops of the aggregation\<close>

lemma forEach_image_eq:
  "forEach_image imgs acc =
     acc @ [b. img \<leftarrow> imgs, b \<leftarrow> (case image_base64 img of None \<Rightarrow> [] | Some b \<Rightarrow> [b]), b \<noteq> []]"
  by (induction imgs arbitrary: acc) (auto split: option.splits)

lemma forEach_page_images:
  "snd (forEach_page n index ps (agg, imgs)) =
     imgs @ [b. p \<leftarrow> ps, img \<leftarrow> (case page_images p of None \<Rightarrow> [] | Some l \<Rightarrow> l),
                b \<leftarrow> (case image_base64 img of None \<Rightarrow> [] | Some b \<Rightarrow> [b]), b \<noteq> []]"
proof (induction ps arbitrary: index agg imgs)
  case Nil
  show ?case by simp
next
  case (Cons p ps)
  show ?case
    by (cases "page_images p") (simp_all add: Let_def Cons.IH forEach_image_eq)
qed

lemma map_upt_Suc_shift:
  "map f [0 ..< Suc m] = f 0 # map (\<lambda>i. f (Suc i)) [0 ..< m]"
  by (simp add: map_upt_Suc del: upt_Suc)

lemma forEach_page_text_many:
  assumes "1 < n"
  shows "fst (forEach_page n index ps (agg, imgs)) =
     agg @ concat (map (\<lambda>i. ''# PAGE '' @ decimal (index + i + 1) @ ''\<newline>'' @
                              markdown (ps ! i) @ ''\<newline>\<newline>'') [0 ..< length ps])"
proof (induction ps arbitrary: index agg imgs)
  case Nil
  show ?case by simp
next
  case (Cons p ps)
  show ?case
    using assms
    by (simp add: Let_def Cons.IH map_upt_Suc_shift del: upt_Suc)
qed

lemma forEach_page_text_few:
  assumes "\<not> 1 < n"
  shows "fst (forEach_page n index ps (agg, imgs)) =
     agg @ concat (map (\<lambda>p. markdown p @ ''\<newline>\<newline>'') ps)"
proof (induction ps arbitrary: index agg imgs)
  case Nil
  show ?case by simp
next
  case (Cons p ps)
  show ?case
    using assms by (simp add: Let_def Cons.IH)
qed

lemma bytes_aggregate: "bytes (aggregate w file r) = 4 * length (ocr_text (aggregate w file r))"
  by (simp add: aggregate_def split: prod.splits)

lemma ocr_text_aggregate:
  "ocr_text (aggregate w file r) = fst (forEach_page (length (pages r)) 0 (pages r) ('''', []))"
  by (simp add: aggregate_def split: prod.splits)

lemma ocr_images_aggregate:
  "ocr_images (aggregate w file r) = snd (forEach_page (length (pages r)) 0 (pages r) ('''', []))"
  by (simp add: aggregate_def split: prod.splits)

lemma aggregate_hello:
  "aggregate w file hello_result =
     \<lparr>filename = originalname file, bytes = 28, filepath = FileSources_mistral_ocr w,
      ocr_text = ''Hello\<newline>\<newline>'', ocr_images = []\<rparr>"
  by (simp add: aggregate_def hello_result_def Let_def)

lemma aggregate_no_pages:
  "pages r = [] \<Longrightarrow> aggregate w file r =
     \<lparr>filename = originalname file, bytes = 0, filepath = FileSources_mistral_ocr w,
      ocr_text = '''', ocr_images = []\<rparr>"
  by (simp add: aggregate_def)

subsection \<open>Failure of the upload stage\<close>

text \<open>
  C1. If the upload stage throws, \<^verbatim>\<open>uploadMistralOCR\<close> throws a single outward error made
  from that cause, and neither \<^verbatim>\<open>getSignedUrl\<close> nor \<^verbatim>\<open>performOCR\<close> is invoked.
  \<^verbatim>\<open>uploadDocumentToMistral\<close> throws exactly when its POST is rejected, with the rejection
  \<open>x\<close>; the outward error is \<^verbatim>\<open>new Error(logAxiosError({error: x, message}))\<close>, and the
  run contains no GET of a signed URL and no OCR POST.
\<close>
theorem upload_failure_aborts_ingestion:
  fixes w :: "'x world"
  assumes "AxiosPostForm target form config (Inl x) \<in> set (fst (uploadMistralOCR w req file))"
  shows "snd (uploadMistralOCR w req file) =
           Inl (Error (logAxiosError w (Rejection x)
                  ''Error uploading document to Mistral OCR API'')) \<and>
         (\<forall>e \<in> set (fst (uploadMistralOCR w req file)). \<not> is_AxiosGet e \<and> \<not> is_AxiosPostJson e)"
proof (cases rule: uploadMistralOCR_cases [of req w "file"])
  case no_config
  with assms show ?thesis by simp
next
  case (credentials_fail c t1 e)
  with assms credentials_events [of w req c] show ?thesis by auto
next
  case (upload_fail c t1 k b t2 e)
  with assms credentials_events [of w req c] uploadDocumentToMistral_Inl [OF upload_fail(3)]
  show ?thesis by auto
next
  case (url_fail c t1 k b t2 f t3 e)
  with assms credentials_events [of w req c] uploadDocumentToMistral_Inr [OF url_fail(3)]
    getSignedUrl_events [of w k "file_id f" None b]
  show ?thesis by auto
next
  case (ocr_fail c t1 k b t2 f t3 u t4 e)
  with assms credentials_events [of w req c] uploadDocumentToMistral_Inr [OF ocr_fail(3)]
    getSignedUrl_events [of w k "file_id f" None b] performOCR_Inl [OF ocr_fail(5)]
  show ?thesis by auto
next
  case (success c t1 k b t2 f t3 u t4 r')
  with assms credentials_events [of w req c] uploadDocumentToMistral_Inr [OF success(3)]
    getSignedUrl_events [of w k "file_id f" None b] performOCR_Inr [OF success(5)]
  show ?thesis by auto
qed

theorem upload_failure_aborts_ingestion_witness:
  "AxiosPostForm ''https://api.mistral.ai/v1/files''
     [(''purpose'', FormField ''ocr''), (''file'', ReadStream ''/tmp/uploads/0001'' ''a.pdf'')]
     \<lparr>headers = [(''Authorization'', ''Bearer sk-1''),
                 (''content-type'', ''multipart/form-data; boundary=b'')],
      maxBodyLength = Some \<infinity>, maxContentLength = Some \<infinity>\<rparr>
     (Inl ''socket hang up'')
     \<in> set (fst (uploadMistralOCR
          (sample_world [(''MISTRAL_KEY'', ''sk-1'')] (Inl ''socket hang up'') (Inr hello_result))
          (sample_request (Some ''${MISTRAL_KEY}'') None)
          (sample_file ''a.pdf'' ''application/pdf'')))
   \<and> snd (uploadMistralOCR
          (sample_world [(''MISTRAL_KEY'', ''sk-1'')] (Inl ''socket hang up'') (Inr hello_result))
          (sample_request (Some ''${MISTRAL_KEY}'') None)
          (sample_file ''a.pdf'' ''application/pdf''))
       = Inl (Error ''Error uploading document to Mistral OCR API: socket hang up'')"
proof -
  have h: "AxiosPostForm ''https://api.mistral.ai/v1/files''
     [(''purpose'', FormField ''ocr''), (''file'', ReadStream ''/tmp/uploads/0001'' ''a.pdf'')]
     \<lparr>headers = [(''Authorization'', ''Bearer sk-1''),
                 (''content-type'', ''multipart/form-data; boundary=b'')],
      maxBodyLength = Some \<infinity>, maxContentLength = Some \<infinity>\<rparr>
     (Inl ''socket hang up'')
     \<in> set (fst (uploadMistralOCR
          (sample_world [(''MISTRAL_KEY'', ''sk-1'')] (Inl ''socket hang up'') (Inr hello_result))
          (sample_request (Some ''${MISTRAL_KEY}'') None)
          (sample_file ''a.pdf'' ''application/pdf'')))"
    by code_simp
  show ?thesis
    using h upload_failure_aborts_ingestion [OF h] by (simp add: sample_world_def)
qed

subsection \<open>The aggregated output\<close>

lemma decimal_examples:
  "decimal 0 = ''0''" "decimal 1 = ''1''" "decimal 2 = ''2''" "decimal 9 = ''9''"
  "decimal 10 = ''10''" "decimal 24 = ''24''" "decimal 305 = ''305''"
  by (simp_all add: decimal.simps digit_def)

text \<open>
  C2. For every successful ingestion the returned \<^verbatim>\<open>bytes\<close> is 4 times the length of the
  returned text, so 0 for the empty text; and a run whose OCR call returned the single
  page \<^verbatim>\<open>{markdown: "Hello", images: []}\<close> for a file named \<^verbatim>\<open>a.pdf\<close> returns the text
  \<^verbatim>\<open>"Hello\n\n"\<close>, no images, the file name and 28 bytes.
\<close>

theorem bytes_four_times_text_length:
  fixes w :: "'x world"
  shows "(snd (uploadMistralOCR w req file) = Inr out \<longrightarrow>
            bytes out = 4 * length (ocr_text out) \<and> (ocr_text out = '''' \<longrightarrow> bytes out = 0))
       \<and> (AxiosPostJson target body config
             (Inr \<lparr>pages = [\<lparr>markdown = ''Hello'', page_images = Some []\<rparr>]\<rparr>)
             \<in> set (fst (uploadMistralOCR w req file)) \<and>
           originalname file = Some ''a.pdf'' \<longrightarrow>
            snd (uploadMistralOCR w req file) =
              Inr \<lparr>filename = Some ''a.pdf'', bytes = 28, filepath = FileSources_mistral_ocr w,
                   ocr_text = ''Hello\<newline>\<newline>'', ocr_images = []\<rparr>)"
proof (intro conjI impI)
  assume "snd (uploadMistralOCR w req file) = Inr out"
  from result_has_ocr_reply [OF this] obtain r where out: "out = aggregate w file r"
    by blast
  show "bytes out = 4 * length (ocr_text out)"
    unfolding out by (rule bytes_aggregate)
  then show "bytes out = 0" if "ocr_text out = ''''"
    using that by simp
next
  assume h: "AxiosPostJson target body config
             (Inr \<lparr>pages = [\<lparr>markdown = ''Hello'', page_images = Some []\<rparr>]\<rparr>)
             \<in> set (fst (uploadMistralOCR w req file)) \<and>
           originalname file = Some ''a.pdf''"
  then have "snd (uploadMistralOCR w req file) = Inr (aggregate w file hello_result)"
    using ocr_reply_gives_result [of target body config hello_result w req "file"]
    by (simp add: hello_result_def)
  with h show "snd (uploadMistralOCR w req file) =
      Inr \<lparr>filename = Some ''a.pdf'', bytes = 28, filepath = FileSources_mistral_ocr w,
           ocr_text = ''Hello\<newline>\<newline>'', ocr_images = []\<rparr>"
    by (simp add: aggregate_hello)
qed

theorem bytes_four_times_text_length_witness:
  "snd (uploadMistralOCR
          (sample_world [] (Inr \<lparr>file_id = ''file-1''\<rparr>) (Inr hello_result))
          (sample_request (Some ''sk-live'') (Some ''https://ocr.example/v1''))
          (sample_file ''a.pdf'' ''application/pdf''))
     = Inr \<lparr>filename = Some ''a.pdf'', bytes = 28, filepath = ''mistral_ocr'',
            ocr_text = ''Hello\<newline>\<newline>'', ocr_images = []\<rparr>
   \<and> bytes \<lparr>filename = Some ''a.pdf'', bytes = 28, filepath = ''mistral_ocr'',
            ocr_text = ''Hello\<newline>\<newline>'', ocr_images = []\<rparr>
     = 4 * length (ocr_text \<lparr>filename = Some ''a.pdf'', bytes = 28, filepath = ''mistral_ocr'',
            ocr_text = ''Hello\<newline>\<newline>'', ocr_images = []\<rparr>)"
proof -
  let ?w = "sample_world [] (Inr \<lparr>file_id = ''file-1''\<rparr>) (Inr hello_result)"
  let ?req = "sample_request (Some ''sk-live'') (Some ''https://ocr.example/v1'')"
  let ?file = "sample_file ''a.pdf'' ''application/pdf''"
  let ?out = "\<lparr>filename = Some ''a.pdf'', bytes = 28, filepath = ''mistral_ocr'',
            ocr_text = ''Hello\<newline>\<newline>'', ocr_images = []\<rparr>"
  have h1: "AxiosPostJson ''https://ocr.example/v1/ocr''
      (ocr_body ''mistral-ocr-latest'' ''document_url'' ''document_url''
         ''https://files.example/signed'')
      \<lparr>headers = [(''Content-Type'', ''application/json''),
                  (''Authorization'', ''Bearer sk-live'')],
       maxBodyLength = None, maxContentLength = None\<rparr>
      (Inr \<lparr>pages = [\<lparr>markdown = ''Hello'', page_images = Some []\<rparr>]\<rparr>)
      \<in> set (fst (uploadMistralOCR ?w ?req ?file))"
    by code_simp
  have h2: "originalname ?file = Some ''a.pdf''"
    by (simp add: sample_file_def)
  have run: "snd (uploadMistralOCR ?w ?req ?file) = Inr ?out"
    using bytes_four_times_text_length [of ?w ?req ?file ?out _ _ _] h1 h2
    by (simp add: sample_world_def)
  with bytes_four_times_text_length [of ?w ?req ?file ?out] show ?thesis
    by simp
qed

text \<open>
  C3. In a run whose OCR call returned \<open>N\<close> pages, for \<open>N > 1\<close> the text is the
  concatenation, in page order, of \<open>N\<close> blocks, block \<open>i\<close> (from 0) being the heading
  \<^verbatim>\<open># PAGE\<close> with the number \<open>i + 1\<close> and a line feed, then the markdown of page \<open>i\<close>,
  then two line feeds: the code emits exactly \<open>N\<close> headings, numbered from 1 upwards. For
  \<open>N = 1\<close> the text is the markdown and two line feeds, without a heading.
\<close>

theorem page_headings:
  fixes w :: "'x world"
  assumes "AxiosPostJson target body config (Inr r) \<in> set (fst (uploadMistralOCR w req file))"
  shows "\<exists>out. snd (uploadMistralOCR w req file) = Inr out \<and>
           (1 < length (pages r) \<longrightarrow>
              ocr_text out =
                concat (map (\<lambda>i. ''# PAGE '' @ decimal (i + 1) @ ''\<newline>'' @
                                 markdown (pages r ! i) @ ''\<newline>\<newline>'')
                          [0 ..< length (pages r)])) \<and>
           (length (pages r) = 1 \<longrightarrow> ocr_text out = markdown (pages r ! 0) @ ''\<newline>\<newline>'')"
proof -
  have run: "snd (uploadMistralOCR w req file) = Inr (aggregate w file r)"
    using assms by (rule ocr_reply_gives_result)
  have many: "ocr_text (aggregate w file r) =
        concat (map (\<lambda>i. ''# PAGE '' @ decimal (i + 1) @ ''\<newline>'' @
                          markdown (pages r ! i) @ ''\<newline>\<newline>'')
                  [0 ..< length (pages r)])"
    if "1 < length (pages r)"
    using forEach_page_text_many [OF that, of 0 "pages r" "''''" "[]"]
    by (simp add: ocr_text_aggregate)
  have one: "ocr_text (aggregate w file r) = markdown (pages r ! 0) @ ''\<newline>\<newline>''"
    if "length (pages r) = 1"
  proof -
    from that obtain p where p: "pages r = [p]"
      by (cases "pages r") simp_all
    have "\<not> 1 < length (pages r)" using that by simp
    from forEach_page_text_few [OF this, of 0 "pages r" "''''" "[]"] p
    show ?thesis by (simp add: ocr_text_aggregate)
  qed
  from run many one show ?thesis by blast
qed

theorem page_headings_witness:
  "AxiosPostJson ''https://ocr.example/v1/ocr''
      (ocr_body ''mistral-ocr-latest'' ''document_url'' ''document_url''
         ''https://files.example/signed'')
      \<lparr>headers = [(''Content-Type'', ''application/json''),
                  (''Authorization'', ''Bearer sk-live'')],
       maxBodyLength = None, maxContentLength = None\<rparr>
      (Inr two_page_result)
      \<in> set (fst (uploadMistralOCR
            (sample_world [] (Inr \<lparr>file_id = ''file-1''\<rparr>) (Inr two_page_result))
            (sample_request (Some ''sk-live'') (Some ''https://ocr.example/v1''))
            (sample_file ''a.pdf'' ''application/pdf'')))
   \<and> (\<exists>out. snd (uploadMistralOCR
            (sample_world [] (Inr \<lparr>file_id = ''file-1''\<rparr>) (Inr two_page_result))
            (sample_request (Some ''sk-live'') (Some ''https://ocr.example/v1''))
            (sample_file ''a.pdf'' ''application/pdf'')) = Inr out
          \<and> ocr_text out =
              ''# PAGE 1\<newline>One\<newline>\<newline># PAGE 2\<newline>Two\<newline>\<newline>'')"
proof -
  let ?w = "sample_world [] (Inr \<lparr>file_id = ''file-1''\<rparr>) (Inr two_page_result)"
  let ?req = "sample_request (Some ''sk-live'') (Some ''https://ocr.example/v1'')"
  let ?file = "sample_file ''a.pdf'' ''application/pdf''"
  have h: "AxiosPostJson ''https://ocr.example/v1/ocr''
      (ocr_body ''mistral-ocr-latest'' ''document_url'' ''document_url''
         ''https://files.example/signed'')
      \<lparr>headers = [(''Content-Type'', ''application/json''),
                  (''Authorization'', ''Bearer sk-live'')],
       maxBodyLength = None, maxContentLength = None\<rparr>
      (Inr two_page_result)
      \<in> set (fst (uploadMistralOCR ?w ?req ?file))"
    by code_simp
  have upt2: "[0 ..< 2] = [0, Suc 0]"
    by (simp add: upt_rec)
  have d: "decimal (Suc 0) = ''1''" "decimal (Suc (Suc 0)) = ''2''"
    by (simp_all add: decimal.simps digit_def)
  from page_headings [OF h] obtain out where
    "snd (uploadMistralOCR ?w ?req ?file) = Inr out"
    "ocr_text out = ''# PAGE 1\<newline>One\<newline>\<newline># PAGE 2\<newline>Two\<newline>\<newline>''"
    by (auto simp: two_page_result_def upt2 d)
  with h show ?thesis by blast
qed

text \<open>
  C7. In a run whose OCR call returned the result \<open>r\<close>, the returned images are the
  \<^verbatim>\<open>image_base64\<close> payloads of the images of the pages, in page order and then in the
  order within the page; an image without a payload (a missing or empty
  \<^verbatim>\<open>image_base64\<close>) and a page without an \<^verbatim>\<open>images\<close> list contribute nothing and raise
  nothing.
\<close>

theorem collected_images:
  fixes w :: "'x world"
  assumes "AxiosPostJson target body config (Inr r) \<in> set (fst (uploadMistralOCR w req file))"
  shows "\<exists>out. snd (uploadMistralOCR w req file) = Inr out \<and>
           ocr_images out =
             [b. p \<leftarrow> pages r,
                 img \<leftarrow> (case page_images p of None \<Rightarrow> [] | Some l \<Rightarrow> l),
                 b \<leftarrow> (case image_base64 img of None \<Rightarrow> [] | Some b \<Rightarrow> [b]),
                 b \<noteq> '''']"
proof -
  have "snd (uploadMistralOCR w req file) = Inr (aggregate w file r)"
    using assms by (rule ocr_reply_gives_result)
  moreover have "ocr_images (aggregate w file r) =
             [b. p \<leftarrow> pages r,
                 img \<leftarrow> (case page_images p of None \<Rightarrow> [] | Some l \<Rightarrow> l),
                 b \<leftarrow> (case image_base64 img of None \<Rightarrow> [] | Some b \<Rightarrow> [b]),
                 b \<noteq> '''']"
    using forEach_page_images [of "length (pages r)" 0 "pages r" "''''" "[]"]
    by (simp add: ocr_images_aggregate)
  ultimately show ?thesis by blast
qed

theorem collected_images_witness:
  "AxiosPostJson ''https://ocr.example/v1/ocr''
      (ocr_body ''mistral-ocr-latest'' ''image_url'' ''image_url''
         ''https://files.example/signed'')
      \<lparr>headers = [(''Content-Type'', ''application/json''),
                  (''Authorization'', ''Bearer sk-live'')],
       maxBodyLength = None, maxContentLength = None\<rparr>
      (Inr two_page_result)
      \<in> set (fst (uploadMistralOCR
            (sample_world [] (Inr \<lparr>file_id = ''file-1''\<rparr>) (Inr two_page_result))
            (sample_request (Some ''sk-live'') (Some ''https://ocr.example/v1''))
            (sample_file ''scan.tiff'' ''application/octet-stream'')))
   \<and> (\<exists>out. snd (uploadMistralOCR
            (sample_world [] (Inr \<lparr>file_id = ''file-1''\<rparr>) (Inr two_page_result))
            (sample_request (Some ''sk-live'') (Some ''https://ocr.example/v1''))
            (sample_file ''scan.tiff'' ''application/octet-stream'')) = Inr out
          \<and> ocr_images out = [''QQ=='', ''Qg==''])"
proof -
  let ?w = "sample_world [] (Inr \<lparr>file_id = ''file-1''\<rparr>) (Inr two_page_result)"
  let ?req = "sample_request (Some ''sk-live'') (Some ''https://ocr.example/v1'')"
  let ?file = "sample_file ''scan.tiff'' ''application/octet-stream''"
  have h: "AxiosPostJson ''https://ocr.example/v1/ocr''
      (ocr_body ''mistral-ocr-latest'' ''image_url'' ''image_url''
         ''https://files.example/signed'')
      \<lparr>headers = [(''Content-Type'', ''application/json''),
                  (''Authorization'', ''Bearer sk-live'')],
       maxBodyLength = None, maxContentLength = None\<rparr>
      (Inr two_page_result)
      \<in> set (fst (uploadMistralOCR ?w ?req ?file))"
    by code_simp
  from collected_images [OF h] obtain out where
    "snd (uploadMistralOCR ?w ?req ?file) = Inr out"
    "ocr_images out = [''QQ=='', ''Qg=='']"
    by (auto simp: two_page_result_def)
  with h show ?thesis by blast
qed

text \<open>
  C10. A run whose OCR call returned no pages still succeeds: the text is empty, the image
  list is empty, \<^verbatim>\<open>bytes\<close> is 0, \<^verbatim>\<open>filename\<close> is the original name of the file and
  \<^verbatim>\<open>filepath\<close> is \<^verbatim>\<open>FileSources.mistral_ocr\<close>.
\<close>

theorem empty_result_still_succeeds:
  fixes w :: "'x world"
  assumes "AxiosPostJson target body config (Inr r) \<in> set (fst (uploadMistralOCR w req file))"
    and "pages r = []"
  shows "snd (uploadMistralOCR w req file) =
           Inr \<lparr>filename = originalname file, bytes = 0, filepath = FileSources_mistral_ocr w,
                ocr_text = '''', ocr_images = []\<rparr>"
  using ocr_reply_gives_result [OF assms(1)] aggregate_no_pages [OF assms(2)] by simp

theorem empty_result_still_succeeds_witness:
  "AxiosPostJson ''https://ocr.example/v1/ocr''
      (ocr_body ''mistral-ocr-latest'' ''document_url'' ''document_url''
         ''https://files.example/signed'')
      \<lparr>headers = [(''Content-Type'', ''application/json''),
                  (''Authorization'', ''Bearer sk-live'')],
       maxBodyLength = None, maxContentLength = None\<rparr>
      (Inr \<lparr>pages = []\<rparr>)
      \<in> set (fst (uploadMistralOCR
            (sample_world [] (Inr \<lparr>file_id = ''file-1''\<rparr>) (Inr \<lparr>pages = []\<rparr>))
            (sample_request (Some ''sk-live'') (Some ''https://ocr.example/v1''))
            (sample_file ''blank.pdf'' ''application/pdf'')))
   \<and> pages \<lparr>pages = []\<rparr> = []
   \<and> snd (uploadMistralOCR
            (sample_world [] (Inr \<lparr>file_id = ''file-1''\<rparr>) (Inr \<lparr>pages = []\<rparr>))
            (sample_request (Some ''sk-live'') (Some ''https://ocr.example/v1''))
            (sample_file ''blank.pdf'' ''application/pdf''))
       = Inr \<lparr>filename = Some ''blank.pdf'', bytes = 0, filepath = ''mistral_ocr'',
              ocr_text = '''', ocr_images = []\<rparr>"
proof -
  let ?w = "sample_world [] (Inr \<lparr>file_id = ''file-1''\<rparr>) (Inr \<lparr>pages = []\<rparr>)"
  let ?req = "sample_request (Some ''sk-live'') (Some ''https://ocr.example/v1'')"
  let ?file = "sample_file ''blank.pdf'' ''application/pdf''"
  have h: "AxiosPostJson ''https://ocr.example/v1/ocr''
      (ocr_body ''mistral-ocr-latest'' ''document_url'' ''document_url''
         ''https://files.example/signed'')
      \<lparr>headers = [(''Content-Type'', ''application/json''),
                  (''Authorization'', ''Bearer sk-live'')],
       maxBodyLength = None, maxContentLength = None\<rparr>
      (Inr \<lparr>pages = []\<rparr>)
      \<in> set (fst (uploadMistralOCR ?w ?req ?file))"
    by code_simp
  have e: "pages \<lparr>pages = []\<rparr> = []" by simp
  show ?thesis
    using h e empty_result_still_succeeds [OF h e]
    by (simp add: sample_world_def sample_file_def)
qed

subsection \<open>The credentials\<close>

lemma uploadDocumentToMistral_events:
  "\<forall>e \<in> set (fst (uploadDocumentToMistral w filePath fileName k b)).
     is_AxiosPostForm e \<or> is_LoggerError e"
  by (simp add: uploadDocumentToMistral_def Let_def split: sum.splits)

lemma performOCR_events:
  "\<forall>e \<in> set (fst (performOCR w k u d m b)). is_AxiosPostJson e \<or> is_LoggerError e"
  by (simp add: performOCR_def Let_def split: sum.splits)

lemma uploadDocumentToMistral_first:
  "\<exists>form config outcome rest.
     fst (uploadDocumentToMistral w filePath fileName k b) =
       AxiosPostForm (default_to b ''https://api.mistral.ai/v1'' @ ''/files'') form config outcome
         # rest \<and>
     map_of (headers config) ''Authorization'' = Some (''Bearer '' @ render k)"
  by (simp add: uploadDocumentToMistral_def Let_def split: sum.splits)

lemma run_after_credentials [consumes 1, case_names rejected resolved]:
  fixes w :: "'x world"
  assumes "ocr req = Some c"
  obtains
    t1 e where
      "credentials w req c = (t1, Inl e)"
      "uploadMistralOCR w req file =
         (t1, Inl (Error (logAxiosError w e ''Error uploading document to Mistral OCR API'')))"
  | t1 k b rest where
      "credentials w req c = (t1, Inr (k, b))"
      "fst (uploadMistralOCR w req file) =
         t1 @ fst (uploadDocumentToMistral w (path file) (originalname file) k b) @ rest"
      "\<forall>e \<in> set rest. \<not> is_LoadAuthValues e"
proof (cases rule: uploadMistralOCR_cases [of req w "file"])
  case no_config
  with assms show ?thesis by simp
next
  case (credentials_fail c' t1 e)
  with assms that(1) show ?thesis by simp
next
  case (upload_fail c' t1 k b t2 e)
  with assms that(2) [of t1 k b "[]"] show ?thesis by simp
next
  case (url_fail c' t1 k b t2 f t3 e)
  with assms that(2) [of t1 k b t3] getSignedUrl_events [of w k "file_id f" None b]
  show ?thesis by auto
next
  case (ocr_fail c' t1 k b t2 f t3 u t4 e)
  with assms that(2) [of t1 k b "t3 @ t4"] getSignedUrl_events [of w k "file_id f" None b]
    performOCR_events [of w k "signed_url u" "Some (documentType_of file)"
      "Some (ocr_model w c')" b]
  show ?thesis by auto
next
  case (success c' t1 k b t2 f t3 u t4 r)
  with assms that(2) [of t1 k b "t3 @ t4"] getSignedUrl_events [of w k "file_id f" None b]
    performOCR_events [of w k "signed_url u" "Some (documentType_of file)"
      "Some (ocr_model w c')" b]
  show ?thesis by auto
qed

lemma trim_Nil: "trim s \<noteq> [] \<Longrightarrow> s \<noteq> []"
  by (auto simp: trim_def)

lemma credentials_literal:
  assumes "ocr_apiKey c = Some k" "ocr_baseURL c = Some b"
    and "\<not> envVarRegex_test w k" "\<not> envVarRegex_test w b"
    and "trim k \<noteq> ''''" "trim b \<noteq> ''''"
  shows "credentials w req c = ([], Inr (Some k, Some b))"
  using assms trim_Nil [of k] trim_Nil [of b]
  by (simp add: credentials_def Let_def ret_def)

lemma credentials_lookup:
  assumes "envVarRegex_test w (or_else (ocr_apiKey c) '''') \<or>
           envVarRegex_test w (or_else (ocr_baseURL c) '''') \<or>
           trim (or_else (ocr_apiKey c) '''') = '''' \<or>
           trim (or_else (ocr_baseURL c) '''') = ''''"
  shows "credentials w req c =
    (let an = (if envVarRegex_test w (or_else (ocr_apiKey c) '''')
               then extractVariableName w (or_else (ocr_apiKey c) '''') else ''OCR_API_KEY'');
         bn = (if envVarRegex_test w (or_else (ocr_baseURL c) '''')
               then extractVariableName w (or_else (ocr_baseURL c) '''') else ''OCR_BASEURL'');
         outcome = loadAuthValues w (user_id req) [bn, an] {bn}
     in ([LoadAuthValues (user_id req) [bn, an] {bn} outcome],
         case outcome of Inl x \<Rightarrow> Inl (Rejection x)
         | Inr authValues \<Rightarrow> Inr (map_of authValues an, map_of authValues bn)))"
  using assms by (auto simp: credentials_def Let_def split: sum.splits)

text \<open>
  C4, as it is stated, at a concrete input. The claim asks for literals that are non-empty;
  the code asks for literals that are not blank (\<^verbatim>\<open>!apiKeyConfig.trim()\<close>). With the API
  key \<^verbatim>\<open>" "\<close>, which is non-empty and not a placeholder, and a literal base URL, the
  lookup branch is taken: the run starts with a lookup in the secret store, and the
  requests carry the key of the store and the default base URL, not the two literals.
\<close>

theorem blank_literal_is_looked_up:
  "\<not> envVarRegex_test
       (sample_world [(''OCR_API_KEY'', ''sk-env'')] (Inr \<lparr>file_id = ''file-1''\<rparr>) (Inr hello_result))
       '' ''
   \<and> '' '' \<noteq> ''''
   \<and> \<not> envVarRegex_test
       (sample_world [(''OCR_API_KEY'', ''sk-env'')] (Inr \<lparr>file_id = ''file-1''\<rparr>) (Inr hello_result))
       ''https://ocr.example/v1''
   \<and> ''https://ocr.example/v1'' \<noteq> ''''
   \<and> fst (uploadMistralOCR
          (sample_world [(''OCR_API_KEY'', ''sk-env'')] (Inr \<lparr>file_id = ''file-1''\<rparr>) (Inr hello_result))
          (sample_request (Some '' '') (Some ''https://ocr.example/v1''))
          (sample_file ''a.pdf'' ''application/pdf''))
       = [LoadAuthValues ''user-1'' [''OCR_BASEURL'', ''OCR_API_KEY''] {''OCR_BASEURL''}
            (Inr [(''OCR_API_KEY'', ''sk-env'')]),
          AxiosPostForm ''https://api.mistral.ai/v1/files''
            [(''purpose'', FormField ''ocr''),
             (''file'', ReadStream ''/tmp/uploads/0001'' ''a.pdf'')]
            \<lparr>headers = [(''Authorization'', ''Bearer sk-env''),
                        (''content-type'', ''multipart/form-data; boundary=b'')],
             maxBodyLength = Some \<infinity>, maxContentLength = Some \<infinity>\<rparr>
            (Inr \<lparr>file_id = ''file-1''\<rparr>),
          AxiosGet ''https://api.mistral.ai/v1/files/file-1/url?expiry=24''
            \<lparr>headers = [(''Authorization'', ''Bearer sk-env'')],
             maxBodyLength = None, maxContentLength = None\<rparr>
            (Inr \<lparr>signed_url = ''https://files.example/signed''\<rparr>),
          AxiosPostJson ''https://api.mistral.ai/v1/ocr''
            (ocr_body ''mistral-ocr-latest'' ''document_url'' ''document_url''
               ''https://files.example/signed'')
            \<lparr>headers = [(''Content-Type'', ''application/json''),
                        (''Authorization'', ''Bearer sk-env'')],
             maxBodyLength = None, maxContentLength = None\<rparr>
            (Inr hello_result)]"
  by code_simp

text \<open>
  C4, amended. When the API key and the base URL of the configuration are both literals
  that are not blank (something is left after trimming white space) and not placeholders,
  the credentials block performs no lookup and yields the two strings as they are: the
  run of \<^verbatim>\<open>uploadMistralOCR\<close> contains no call of \<^verbatim>\<open>loadAuthValues\<close>, and its first
  interaction is the upload to the literal base URL with the literal key as bearer token.
\<close>

theorem literal_credentials_need_no_lookup:
  fixes w :: "'x world"
  assumes "ocr req = Some c" and "ocr_apiKey c = Some k" and "ocr_baseURL c = Some b"
    and "\<not> envVarRegex_test w k" and "\<not> envVarRegex_test w b"
    and "trim k \<noteq> ''''" and "trim b \<noteq> ''''"
  shows "credentials w req c = ([], Inr (Some k, Some b)) \<and>
         (\<forall>e \<in> set (fst (uploadMistralOCR w req file)). \<not> is_LoadAuthValues e) \<and>
         (\<exists>form config outcome rest.
            fst (uploadMistralOCR w req file) =
              AxiosPostForm (b @ ''/files'') form config outcome # rest \<and>
            map_of (headers config) ''Authorization'' = Some (''Bearer '' @ k))"
proof -
  have cred: "credentials w req c = ([], Inr (Some k, Some b))"
    using assms(2-7) by (rule credentials_literal)
  from assms(1) have
    "(\<forall>e \<in> set (fst (uploadMistralOCR w req file)). \<not> is_LoadAuthValues e) \<and>
     (\<exists>form config outcome rest.
        fst (uploadMistralOCR w req file) =
          AxiosPostForm (b @ ''/files'') form config outcome # rest \<and>
        map_of (headers config) ''Authorization'' = Some (''Bearer '' @ k))"
  proof (cases rule: run_after_credentials [where w = w and ?file = "file"])
    case (rejected t1 e)
    with cred show ?thesis by simp
  next
    case (resolved t1 k' b' rest)
    with cred have eq: "fst (uploadMistralOCR w req file) =
        fst (uploadDocumentToMistral w (path file) (originalname file) (Some k) (Some b)) @ rest"
      by simp
    from uploadDocumentToMistral_first [of w "path file" "originalname file" "Some k" "Some b"]
    obtain form config outcome rest' where first:
      "fst (uploadDocumentToMistral w (path file) (originalname file) (Some k) (Some b)) =
         AxiosPostForm (b @ ''/files'') form config outcome # rest'"
      "map_of (headers config) ''Authorization'' = Some (''Bearer '' @ k)"
      by auto
    have "\<forall>e \<in> set (fst (uploadMistralOCR w req file)). \<not> is_LoadAuthValues e"
      using eq resolved(3)
        uploadDocumentToMistral_events [of w "path file" "originalname file" "Some k" "Some b"]
      by auto
    moreover have "fst (uploadMistralOCR w req file) =
        AxiosPostForm (b @ ''/files'') form config outcome # (rest' @ rest)"
      using eq first(1) by simp
    ultimately show ?thesis using first(2) by blast
  qed
  with cred show ?thesis by blast
qed


theorem literal_credentials_need_no_lookup_witness:
  "credentials (sample_world [] (Inr \<lparr>file_id = ''file-1''\<rparr>) (Inr hello_result))
     (sample_request (Some ''sk-live'') (Some ''https://ocr.example/v1''))
     \<lparr>ocr_apiKey = Some ''sk-live'', ocr_baseURL = Some ''https://ocr.example/v1'',
      ocr_mistralModel = None\<rparr>
     = ([], Inr (Some ''sk-live'', Some ''https://ocr.example/v1''))
   \<and> list_all (\<lambda>e. \<not> is_LoadAuthValues e)
       (fst (uploadMistralOCR (sample_world [] (Inr \<lparr>file_id = ''file-1''\<rparr>) (Inr hello_result))
          (sample_request (Some ''sk-live'') (Some ''https://ocr.example/v1''))
          (sample_file ''a.pdf'' ''application/pdf'')))"
proof -
  let ?w = "sample_world [] (Inr \<lparr>file_id = ''file-1''\<rparr>) (Inr hello_result)"
  let ?req = "sample_request (Some ''sk-live'') (Some ''https://ocr.example/v1'')"
  let ?c = "\<lparr>ocr_apiKey = Some ''sk-live'', ocr_baseURL = Some ''https://ocr.example/v1'',
             ocr_mistralModel = None\<rparr>"
  have h: "ocr ?req = Some ?c" "ocr_apiKey ?c = Some ''sk-live''"
    "ocr_baseURL ?c = Some ''https://ocr.example/v1''"
    "\<not> envVarRegex_test ?w ''sk-live''" "\<not> envVarRegex_test ?w ''https://ocr.example/v1''"
    "trim ''sk-live'' \<noteq> ''''" "trim ''https://ocr.example/v1'' \<noteq> ''''"
    by (simp_all add: sample_request_def sample_world_def trim_def isWhiteSpace_def)
  from literal_credentials_need_no_lookup [OF h, of "sample_file ''a.pdf'' ''application/pdf''"]
  show ?thesis by (simp add: list_all_iff)
qed

text \<open>
  C5, as it is stated, at a concrete input. The claim says that in the lookup branch the
  name of the API key is required. With the API key \<^verbatim>\<open>${OCR_BASEURL}\<close> and no base URL,
  both names are \<^verbatim>\<open>OCR_BASEURL\<close>, the set of optional names is built from the base-URL
  name, and so the name looked up for the API key is marked optional.
\<close>

theorem api_key_name_marked_optional:
  "envVarRegex_test (sample_world [] (Inr \<lparr>file_id = ''file-1''\<rparr>) (Inr hello_result))
     ''${OCR_BASEURL}''
   \<and> hd (fst (uploadMistralOCR
              (sample_world [] (Inr \<lparr>file_id = ''file-1''\<rparr>) (Inr hello_result))
              (sample_request (Some ''${OCR_BASEURL}'') None)
              (sample_file ''a.pdf'' ''application/pdf'')))
       = LoadAuthValues ''user-1'' [''OCR_BASEURL'', ''OCR_BASEURL''] {''OCR_BASEURL''} (Inr [])
   \<and> extractVariableName (sample_world [] (Inr \<lparr>file_id = ''file-1''\<rparr>) (Inr hello_result))
       ''${OCR_BASEURL}''
       \<in> lookup_optional (hd (fst (uploadMistralOCR
              (sample_world [] (Inr \<lparr>file_id = ''file-1''\<rparr>) (Inr hello_result))
              (sample_request (Some ''${OCR_BASEURL}'') None)
              (sample_file ''a.pdf'' ''application/pdf''))))"
  by code_simp

text \<open>
  C5, amended. Whenever the lookup branch is taken, the first interaction is one batched
  lookup of the base-URL name and the API-key name. The name of a field is the name
  extracted from its placeholder if the field is a placeholder, and the fixed fallback
  name (\<^verbatim>\<open>OCR_API_KEY\<close>, \<^verbatim>\<open>OCR_BASEURL\<close>) if the field is empty, that is blank and not
  a placeholder; nothing is said of a literal field. The set of optional names is the
  base-URL name alone: the base-URL name is optional, and the API-key name is required
  whenever it differs from the base-URL name.
\<close>

theorem lookup_names:
  fixes w :: "'x world"
  assumes "ocr req = Some c"
    and "k = or_else (ocr_apiKey c) ''''" and "b = or_else (ocr_baseURL c) ''''"
    and "envVarRegex_test w k \<or> envVarRegex_test w b \<or> trim k = '''' \<or> trim b = ''''"
  shows "\<exists>an bn optional outcome rest.
           fst (uploadMistralOCR w req file) =
             LoadAuthValues (user_id req) [bn, an] optional outcome # rest \<and>
           (envVarRegex_test w k \<longrightarrow> an = extractVariableName w k) \<and>
           (trim k = '''' \<and> \<not> envVarRegex_test w k \<longrightarrow> an = ''OCR_API_KEY'') \<and>
           (envVarRegex_test w b \<longrightarrow> bn = extractVariableName w b) \<and>
           (trim b = '''' \<and> \<not> envVarRegex_test w b \<longrightarrow> bn = ''OCR_BASEURL'') \<and>
           optional = {bn} \<and> bn \<in> optional \<and> (an \<noteq> bn \<longrightarrow> an \<notin> optional)"
proof -
  define an where "an = (if envVarRegex_test w k then extractVariableName w k
                         else ''OCR_API_KEY'')"
  define bn where "bn = (if envVarRegex_test w b then extractVariableName w b
                         else ''OCR_BASEURL'')"
  define outcome where "outcome = loadAuthValues w (user_id req) [bn, an] {bn}"
  have cred: "fst (credentials w req c) = [LoadAuthValues (user_id req) [bn, an] {bn} outcome]"
    using credentials_lookup [of w c req] assms(2-4)
    by (simp add: Let_def an_def bn_def outcome_def)
  from assms(1) have "\<exists>rest. fst (uploadMistralOCR w req file) =
      LoadAuthValues (user_id req) [bn, an] {bn} outcome # rest"
  proof (cases rule: run_after_credentials [where w = w and ?file = "file"])
    case (rejected t1 e)
    with cred show ?thesis by simp
  next
    case (resolved t1 k' b' rest)
    with cred show ?thesis by simp
  qed
  then obtain rest where "fst (uploadMistralOCR w req file) =
      LoadAuthValues (user_id req) [bn, an] {bn} outcome # rest" by blast
  moreover have "bn \<in> {bn}" "an \<noteq> bn \<longrightarrow> an \<notin> {bn}" by simp_all
  moreover have "envVarRegex_test w k \<longrightarrow> an = extractVariableName w k"
    "trim k = '''' \<and> \<not> envVarRegex_test w k \<longrightarrow> an = ''OCR_API_KEY''"
    "envVarRegex_test w b \<longrightarrow> bn = extractVariableName w b"
    "trim b = '''' \<and> \<not> envVarRegex_test w b \<longrightarrow> bn = ''OCR_BASEURL''"
    by (simp_all add: an_def bn_def)
  ultimately show ?thesis by blast
qed

theorem lookup_names_witness:
  "ocr (sample_request (Some ''${MISTRAL_KEY}'') None)
     = Some \<lparr>ocr_apiKey = Some ''${MISTRAL_KEY}'', ocr_baseURL = None, ocr_mistralModel = None\<rparr>
   \<and> envVarRegex_test
       (sample_world [(''MISTRAL_KEY'', ''sk-1'')] (Inr \<lparr>file_id = ''file-1''\<rparr>) (Inr hello_result))
       ''${MISTRAL_KEY}''
   \<and> trim '''' = ''''
   \<and> \<not> envVarRegex_test
       (sample_world [(''MISTRAL_KEY'', ''sk-1'')] (Inr \<lparr>file_id = ''file-1''\<rparr>) (Inr hello_result))
       ''''
   \<and> (\<exists>outcome rest.
        fst (uploadMistralOCR
          (sample_world [(''MISTRAL_KEY'', ''sk-1'')] (Inr \<lparr>file_id = ''file-1''\<rparr>) (Inr hello_result))
          (sample_request (Some ''${MISTRAL_KEY}'') None)
          (sample_file ''a.pdf'' ''application/pdf''))
        = LoadAuthValues ''user-1'' [''OCR_BASEURL'', ''MISTRAL_KEY''] {''OCR_BASEURL''} outcome
            # rest)"
proof -
  let ?w = "sample_world [(''MISTRAL_KEY'', ''sk-1'')] (Inr \<lparr>file_id = ''file-1''\<rparr>)
              (Inr hello_result)"
  let ?req = "sample_request (Some ''${MISTRAL_KEY}'') None"
  let ?c = "\<lparr>ocr_apiKey = Some ''${MISTRAL_KEY}'', ocr_baseURL = None, ocr_mistralModel = None\<rparr>"
  have h1: "ocr ?req = Some ?c"
    by (simp add: sample_request_def)
  have h2: "''${MISTRAL_KEY}'' = or_else (ocr_apiKey ?c) ''''"
    and h3: "'''' = or_else (ocr_baseURL ?c) ''''"
    by simp_all
  have h5: "envVarRegex_test ?w ''${MISTRAL_KEY}''"
    by (simp add: sample_world_def)
  then have h4: "envVarRegex_test ?w ''${MISTRAL_KEY}'' \<or> envVarRegex_test ?w '''' \<or>
      trim ''${MISTRAL_KEY}'' = '''' \<or> trim '''' = ''''"
    by blast
  have n: "\<not> envVarRegex_test ?w ''''" "trim '''' = ''''"
    "extractVariableName ?w ''${MISTRAL_KEY}'' = ''MISTRAL_KEY''"
    "user_id ?req = ''user-1''"
    by (simp_all add: sample_world_def sample_request_def trim_def)
  from lookup_names [OF h1 h2 h3 h4, of "sample_file ''a.pdf'' ''application/pdf''"]
  obtain an bn optional outcome rest where
    "fst (uploadMistralOCR ?w ?req (sample_file ''a.pdf'' ''application/pdf'')) =
       LoadAuthValues (user_id ?req) [bn, an] optional outcome # rest"
    "an = ''MISTRAL_KEY''" "bn = ''OCR_BASEURL''" "optional = {bn}"
    using h5 n by auto
  then have "\<exists>outcome rest.
      fst (uploadMistralOCR ?w ?req (sample_file ''a.pdf'' ''application/pdf'')) =
        LoadAuthValues ''user-1'' [''OCR_BASEURL'', ''MISTRAL_KEY''] {''OCR_BASEURL''} outcome
          # rest"
    using n(4) by auto
  with h1 h5 n(1,2) show ?thesis by blast
qed

lemma secret_store_rejects:
  assumes "f \<in> set authFields" and "f \<notin> optional" and "map_of store f = None"
  shows "secret_store failure store userId authFields optional = Inl failure"
  using assms by (auto simp: secret_store_def list_all_iff)

text \<open>
  C6, as it is stated, at a concrete input. The claim says that the ingestion fails when
  the name extracted from the placeholder of the API key cannot be resolved. With the API
  key \<^verbatim>\<open>${OCR_BASEURL}\<close>, no base URL and a store without an entry of that name, the
  name is also the base-URL name and so is optional: the lookup returns no value, the
  requests are sent with \<^verbatim>\<open>Bearer undefined\<close>, and the run succeeds.
\<close>

theorem unresolved_placeholder_name_run_succeeds:
  "envVarRegex_test
     (sample_world [] (Inr \<lparr>file_id = ''file-1''\<rparr>) (Inr hello_result)) ''${OCR_BASEURL}''
   \<and> map_of ([] :: (string \<times> string) list)
       (extractVariableName
          (sample_world [] (Inr \<lparr>file_id = ''file-1''\<rparr>) (Inr hello_result))
          ''${OCR_BASEURL}'') = None
   \<and> fst (uploadMistralOCR
          (sample_world [] (Inr \<lparr>file_id = ''file-1''\<rparr>) (Inr hello_result))
          (sample_request (Some ''${OCR_BASEURL}'') None)
          (sample_file ''a.pdf'' ''application/pdf''))
       = [LoadAuthValues ''user-1'' [''OCR_BASEURL'', ''OCR_BASEURL''] {''OCR_BASEURL''}
            (Inr []),
          AxiosPostForm ''https://api.mistral.ai/v1/files''
            [(''purpose'', FormField ''ocr''),
             (''file'', ReadStream ''/tmp/uploads/0001'' ''a.pdf'')]
            \<lparr>headers = [(''Authorization'', ''Bearer undefined''),
                        (''content-type'', ''multipart/form-data; boundary=b'')],
             maxBodyLength = Some \<infinity>, maxContentLength = Some \<infinity>\<rparr>
            (Inr \<lparr>file_id = ''file-1''\<rparr>),
          AxiosGet ''https://api.mistral.ai/v1/files/file-1/url?expiry=24''
            \<lparr>headers = [(''Authorization'', ''Bearer undefined'')],
             maxBodyLength = None, maxContentLength = None\<rparr>
            (Inr \<lparr>signed_url = ''https://files.example/signed''\<rparr>),
          AxiosPostJson ''https://api.mistral.ai/v1/ocr''
            (ocr_body ''mistral-ocr-latest'' ''document_url'' ''document_url''
               ''https://files.example/signed'')
            \<lparr>headers = [(''Content-Type'', ''application/json''),
                        (''Authorization'', ''Bearer undefined'')],
             maxBodyLength = None, maxContentLength = None\<rparr>
            (Inr hello_result)]
   \<and> snd (uploadMistralOCR
          (sample_world [] (Inr \<lparr>file_id = ''file-1''\<rparr>) (Inr hello_result))
          (sample_request (Some ''${OCR_BASEURL}'') None)
          (sample_file ''a.pdf'' ''application/pdf''))
       = Inr \<lparr>filename = Some ''a.pdf'', bytes = 28, filepath = ''mistral_ocr'',
              ocr_text = ''Hello\<newline>\<newline>'', ocr_images = []\<rparr>"
  by code_simp

text \<open>
  C6, amended. When the API key of the configuration is a placeholder, the run starts
  with a lookup in the secret store of the base-URL name and the name extracted from the
  placeholder; the optional names are the base-URL name alone, so the extracted name is
  required whenever it differs from the base-URL name. When the store rejects the lookup,
  nothing else is called and \<^verbatim>\<open>uploadMistralOCR\<close> throws the outward error made from the
  rejection; for the store of the specification this is the case when the extracted name
  differs from the base-URL name and has no entry.
\<close>

theorem placeholder_api_key_is_looked_up:
  fixes w :: "'x world"
  assumes "ocr req = Some c" and "k = or_else (ocr_apiKey c) ''''"
    and "envVarRegex_test w k"
  shows "\<exists>bn optional outcome rest.
           fst (uploadMistralOCR w req file) =
             LoadAuthValues (user_id req) [bn, extractVariableName w k] optional outcome # rest \<and>
           outcome = loadAuthValues w (user_id req) [bn, extractVariableName w k] optional \<and>
           optional = {bn} \<and>
           (extractVariableName w k \<noteq> bn \<longrightarrow> extractVariableName w k \<notin> optional) \<and>
           (\<forall>x. outcome = Inl x \<longrightarrow>
              rest = [] \<and>
              snd (uploadMistralOCR w req file) =
                Inl (Error (logAxiosError w (Rejection x)
                       ''Error uploading document to Mistral OCR API''))) \<and>
           (loadAuthValues w = secret_store failure store \<and>
            map_of store (extractVariableName w k) = None \<and>
            extractVariableName w k \<noteq> bn \<longrightarrow>
              rest = [] \<and>
              snd (uploadMistralOCR w req file) =
                Inl (Error (logAxiosError w (Rejection failure)
                       ''Error uploading document to Mistral OCR API'')))"
proof -
  define bn where "bn = (if envVarRegex_test w (or_else (ocr_baseURL c) '''')
                         then extractVariableName w (or_else (ocr_baseURL c) '''')
                         else ''OCR_BASEURL'')"
  define outcome where
    "outcome = loadAuthValues w (user_id req) [bn, extractVariableName w k] {bn}"
  have cred: "fst (credentials w req c) =
      [LoadAuthValues (user_id req) [bn, extractVariableName w k] {bn} outcome]"
    using assms(2,3)
    by (simp add: credentials_def Let_def bn_def outcome_def split: sum.splits)
  have rejected: "snd (credentials w req c) = Inl (Rejection x)" if "outcome = Inl x" for x
    using assms(2,3) that
    by (simp add: credentials_def Let_def bn_def outcome_def split: sum.splits)
  have resolved: "\<exists>kb. snd (credentials w req c) = Inr kb" if "outcome = Inr a" for a
    using assms(2,3) that
    by (simp add: credentials_def Let_def bn_def outcome_def split: sum.splits)
  from assms(1) have
    "\<exists>rest. fst (uploadMistralOCR w req file) =
        LoadAuthValues (user_id req) [bn, extractVariableName w k] {bn} outcome # rest \<and>
      (\<forall>x. outcome = Inl x \<longrightarrow>
         rest = [] \<and>
         snd (uploadMistralOCR w req file) =
           Inl (Error (logAxiosError w (Rejection x)
                  ''Error uploading document to Mistral OCR API'')))"
  proof (cases rule: run_after_credentials [where w = w and ?file = "file"])
    case r: (rejected t1 e)
    with cred rejected resolved show ?thesis by (cases outcome) auto
  next
    case r: (resolved t1 k' b' rest)
    with cred rejected resolved show ?thesis by (cases outcome) auto
  qed
  then obtain rest where
    run: "fst (uploadMistralOCR w req file) =
        LoadAuthValues (user_id req) [bn, extractVariableName w k] {bn} outcome # rest"
    and fails: "\<forall>x. outcome = Inl x \<longrightarrow>
         rest = [] \<and>
         snd (uploadMistralOCR w req file) =
           Inl (Error (logAxiosError w (Rejection x)
                  ''Error uploading document to Mistral OCR API''))"
    by blast
  have required: "extractVariableName w k \<noteq> bn \<longrightarrow> extractVariableName w k \<notin> {bn}"
    by simp
  have absent: "rest = [] \<and>
      snd (uploadMistralOCR w req file) =
        Inl (Error (logAxiosError w (Rejection failure)
               ''Error uploading document to Mistral OCR API''))"
    if "loadAuthValues w = secret_store failure store"
      and "map_of store (extractVariableName w k) = None"
      and "extractVariableName w k \<noteq> bn"
  proof -
    have "outcome = Inl failure"
      unfolding outcome_def that(1)
      by (rule secret_store_rejects [of "extractVariableName w k"]) (use that in simp_all)
    with fails show ?thesis by blast
  qed
  show ?thesis
    apply (rule exI [of _ bn])
    apply (rule exI [of _ "{bn}"])
    apply (rule exI [of _ outcome])
    apply (rule exI [of _ rest])
    using run fails required absent
    apply (simp add: outcome_def)
    done
qed

theorem placeholder_api_key_is_looked_up_witness:
  "envVarRegex_test (sample_world [] (Inr \<lparr>file_id = ''file-1''\<rparr>) (Inr hello_result))
     ''${MISTRAL_KEY}''
   \<and> map_of ([] :: (string \<times> string) list)
       (extractVariableName
          (sample_world [] (Inr \<lparr>file_id = ''file-1''\<rparr>) (Inr hello_result))
          ''${MISTRAL_KEY}'') = None
   \<and> fst (uploadMistralOCR
          (sample_world [] (Inr \<lparr>file_id = ''file-1''\<rparr>) (Inr hello_result))
          (sample_request (Some ''${MISTRAL_KEY}'') None)
          (sample_file ''a.pdf'' ''application/pdf''))
       = [LoadAuthValues ''user-1'' [''OCR_BASEURL'', ''MISTRAL_KEY''] {''OCR_BASEURL''}
            (Inl ''No auth value found'')]
   \<and> snd (uploadMistralOCR
          (sample_world [] (Inr \<lparr>file_id = ''file-1''\<rparr>) (Inr hello_result))
          (sample_request (Some ''${MISTRAL_KEY}'') None)
          (sample_file ''a.pdf'' ''application/pdf''))
       = Inl (Error ''Error uploading document to Mistral OCR API: No auth value found'')"
proof -
  let ?w = "sample_world [] (Inr \<lparr>file_id = ''file-1''\<rparr>) (Inr hello_result)"
  let ?req = "sample_request (Some ''${MISTRAL_KEY}'') None"
  let ?file = "sample_file ''a.pdf'' ''application/pdf''"
  let ?c = "\<lparr>ocr_apiKey = Some ''${MISTRAL_KEY}'', ocr_baseURL = None, ocr_mistralModel = None\<rparr>"
  have h1: "ocr ?req = Some ?c"
    by (simp add: sample_request_def)
  have h2: "''${MISTRAL_KEY}'' = or_else (ocr_apiKey ?c) ''''"
    by simp
  have h3: "envVarRegex_test ?w ''${MISTRAL_KEY}''"
    by (simp add: sample_world_def)
  have store: "loadAuthValues ?w = secret_store ''No auth value found'' []"
    by (simp add: sample_world_def)
  have name: "extractVariableName ?w ''${MISTRAL_KEY}'' = ''MISTRAL_KEY''"
    by (simp add: sample_world_def)
  have hd: "hd (fst (uploadMistralOCR ?w ?req ?file)) =
      LoadAuthValues ''user-1'' [''OCR_BASEURL'', ''MISTRAL_KEY''] {''OCR_BASEURL''}
        (Inl ''No auth value found'')"
    by code_simp
  from placeholder_api_key_is_looked_up [OF h1 h2 h3, of ?file "''No auth value found''" "[]"]
  obtain bn optional outcome rest where
    run: "fst (uploadMistralOCR ?w ?req ?file) =
       LoadAuthValues (user_id ?req) [bn, extractVariableName ?w ''${MISTRAL_KEY}''] optional
         outcome # rest"
    and absent: "loadAuthValues ?w = secret_store ''No auth value found'' [] \<and>
       map_of ([] :: (string \<times> string) list) (extractVariableName ?w ''${MISTRAL_KEY}'') = None \<and>
       extractVariableName ?w ''${MISTRAL_KEY}'' \<noteq> bn \<longrightarrow>
       rest = [] \<and>
       snd (uploadMistralOCR ?w ?req ?file) =
         Inl (Error (logAxiosError ?w (Rejection ''No auth value found'')
                ''Error uploading document to Mistral OCR API''))"
    by blast
  from run hd have bn: "bn = ''OCR_BASEURL''"
    by simp
  with absent store name have "rest = []"
    and "snd (uploadMistralOCR ?w ?req ?file) =
      Inl (Error (logAxiosError ?w (Rejection ''No auth value found'')
             ''Error uploading document to Mistral OCR API''))"
    by simp_all
  with run hd h3 name show ?thesis
    by (simp add: sample_world_def)
qed

subsection \<open>The OCR request\<close>

text \<open>
  C9. \<^verbatim>\<open>performOCR\<close> posts, to \<^verbatim>\<open>${baseURL}/ocr\<close>, the body \<^verbatim>\<open>{model, include_image_base64:
  false, document: {type: documentType, [key]: url}}\<close>, where \<^verbatim>\<open>documentType\<close> is
  \<^verbatim>\<open>document_url\<close> when the caller passes none, and the key of the URL is \<^verbatim>\<open>image_url\<close>
  if and only if the caller passes the document type \<^verbatim>\<open>image_url\<close>, and \<^verbatim>\<open>document_url\<close>
  for every other value.
\<close>

theorem performOCR_request_body:
  fixes w :: "'x world"
  shows "\<exists>key config outcome rest.
           fst (performOCR w apiKey url documentTypeArg modelArg baseURLArg) =
             AxiosPostJson
               ((case baseURLArg of None \<Rightarrow> ''https://api.mistral.ai/v1'' | Some u \<Rightarrow> u) @ ''/ocr'')
               (JObject
                  [(''model'',
                    JString (case modelArg of None \<Rightarrow> ''mistral-ocr-latest'' | Some m \<Rightarrow> m)),
                   (''include_image_base64'', JBool False),
                   (''document'',
                    JObject
                      [(''type'',
                        JString (case documentTypeArg of None \<Rightarrow> ''document_url'' | Some d \<Rightarrow> d)),
                       (key, JString url)])])
               config outcome # rest \<and>
           (key = ''image_url'' \<longleftrightarrow> documentTypeArg = Some ''image_url'') \<and>
           (key = ''document_url'' \<longleftrightarrow> documentTypeArg \<noteq> Some ''image_url'')"
  by (cases documentTypeArg; cases modelArg; cases baseURLArg)
     (simp_all add: performOCR_def ocr_body_def Let_def split: sum.splits)

theorem performOCR_request_body_witness:
  "fst (performOCR (sample_world [] (Inr \<lparr>file_id = ''file-1''\<rparr>) (Inr hello_result))
          (Some ''sk-live'') ''https://files.example/signed'' (Some ''image_url'') None None)
     = [AxiosPostJson ''https://api.mistral.ai/v1/ocr''
          (JObject
             [(''model'', JString ''mistral-ocr-latest''),
              (''include_image_base64'', JBool False),
              (''document'',
               JObject [(''type'', JString ''image_url''),
                        (''image_url'', JString ''https://files.example/signed'')])])
          \<lparr>headers = [(''Content-Type'', ''application/json''),
                      (''Authorization'', ''Bearer sk-live'')],
           maxBodyLength = None, maxContentLength = None\<rparr>
          (Inr hello_result)]"
proof -
  let ?w = "sample_world [] (Inr \<lparr>file_id = ''file-1''\<rparr>) (Inr hello_result)"
  let ?run = "fst (performOCR ?w (Some ''sk-live'') ''https://files.example/signed''
                     (Some ''image_url'') None None)"
  have rest: "tl ?run = []"
    and reply: "is_AxiosPostJson (hd ?run)"
    and config: "(case hd ?run of AxiosPostJson t j c' r' \<Rightarrow> c') =
       \<lparr>headers = [(''Content-Type'', ''application/json''),
                   (''Authorization'', ''Bearer sk-live'')],
        maxBodyLength = None, maxContentLength = None\<rparr>"
    and outcome: "(case hd ?run of AxiosPostJson t j c' r' \<Rightarrow> r') = Inr hello_result"
    by code_simp+
  from performOCR_request_body [of ?w "Some ''sk-live''" "''https://files.example/signed''"
      "Some ''image_url''" None None]
  obtain key config outcome rest where
    run: "?run = AxiosPostJson ''https://api.mistral.ai/v1/ocr''
       (JObject
          [(''model'', JString ''mistral-ocr-latest''),
           (''include_image_base64'', JBool False),
           (''document'',
            JObject [(''type'', JString ''image_url''),
                     (key, JString ''https://files.example/signed'')])])
       config outcome # rest"
    and key: "key = ''image_url''"
    by auto
  from run rest config outcome show ?thesis
    unfolding key by simp
qed

subsection \<open>The media kind\<close>

lemma of_char_less_256: "(of_char c :: nat) < 256"
proof -
  have "(of_char c :: nat) mod 256 < 256" by simp
  then show ?thesis by (simp only: of_char_mod_256)
qed

lemma char_eq_iff_of_char: "c = d \<longleftrightarrow> (of_char c :: nat) = of_char d"
proof
  assume "(of_char c :: nat) = of_char d"
  then have "char_of (of_char c :: nat) = char_of (of_char d :: nat)" by simp
  then show "c = d" by (simp only: char_of_char)
qed simp

lemma char_of_eq_iff:
  assumes "n < 256"
  shows "char_of (n :: nat) = c \<longleftrightarrow> n = of_char c"
proof
  assume "char_of n = c"
  then have "of_char (char_of n) = (of_char c :: nat)" by simp
  with assms show "n = of_char c" by (simp add: of_char_of)
next
  assume "n = of_char c"
  then show "char_of n = c" by simp
qed

lemma char_matches_lower:
  assumes "(97 \<le> (of_char c :: nat) \<and> (of_char c :: nat) \<le> 122) \<or> (of_char c :: nat) = 46"
  shows "char_matches True c d \<longleftrightarrow> toLowerCase_unit d = c"
proof -
  define m :: nat where "m = of_char c"
  define n :: nat where "n = of_char d"
  have n: "n < 256" unfolding n_def by (rule of_char_less_256)
  have m: "(97 \<le> m \<and> m \<le> 122) \<or> m = 46" using assms by (simp add: m_def)
  have left: "char_matches True c d \<longleftrightarrow> (n = m \<or> (97 \<le> m \<and> n + 32 = m))"
    using m n by (auto simp: char_matches_def canonicalize_def m_def [symmetric] n_def [symmetric])
  have right: "toLowerCase_unit d = c \<longleftrightarrow> (n = m \<or> (97 \<le> m \<and> n + 32 = m))"
  proof (cases "(65 \<le> n \<and> n \<le> 90) \<or> (192 \<le> n \<and> n \<le> 222 \<and> n \<noteq> 215)")
    case True
    then have "toLowerCase_unit d = char_of (n + 32)"
      by (simp add: toLowerCase_unit_def n_def Let_def)
    moreover have "n + 32 < 256" using True by auto
    ultimately have "toLowerCase_unit d = c \<longleftrightarrow> n + 32 = m"
      unfolding m_def by (simp only: char_of_eq_iff)
    with True m show ?thesis by auto
  next
    case False
    then have "toLowerCase_unit d = d"
      by (auto simp: toLowerCase_unit_def n_def Let_def)
    then have "toLowerCase_unit d = c \<longleftrightarrow> d = c"
      by (simp only:)
    also have "\<dots> \<longleftrightarrow> n = m"
      unfolding n_def m_def by (rule char_eq_iff_of_char)
    finally have "toLowerCase_unit d = c \<longleftrightarrow> n = m" .
    with False m show ?thesis by auto
  qed
  from left right show ?thesis by simp
qed

lemma full_Lit:
  "[] \<in> set (rmatch i (Lit c) s) \<longleftrightarrow> (\<exists>d. s = [d] \<and> char_matches i c d)"
  by (cases s) auto

lemma full_Lit_Seq:
  "[] \<in> set (rmatch i (Seq (Lit c) r) s) \<longleftrightarrow>
     (\<exists>d rest. s = d # rest \<and> char_matches i c d \<and> [] \<in> set (rmatch i r rest))"
  by (cases s) auto

lemma full_Opt_Seq:
  "[] \<in> set (rmatch i (Seq (Opt a) r) s) \<longleftrightarrow>
     [] \<in> set (rmatch i (Seq a r) s) \<or> [] \<in> set (rmatch i r s)"
  by auto

lemma full_Opt:
  "[] \<in> set (rmatch i (Opt a) s) \<longleftrightarrow> [] \<in> set (rmatch i a s) \<or> s = []"
  by auto

lemma full_Alt:
  "[] \<in> set (rmatch i (Alt a b) s) \<longleftrightarrow> [] \<in> set (rmatch i a s) \<or> [] \<in> set (rmatch i b s)"
  by simp

lemma rmatch_Seq_End:
  "rmatch i (Seq a End) s \<noteq> [] \<longleftrightarrow> [] \<in> set (rmatch i a s)"
  by (induction "rmatch i a s" arbitrary: s) auto

lemmas full_simps = full_Lit full_Lit_Seq full_Opt_Seq full_Opt full_Alt

lemma pattern_chars:
  "char_matches True CHR ''.'' d \<longleftrightarrow> toLowerCase_unit d = CHR ''.''"
  "char_matches True CHR ''p'' d \<longleftrightarrow> toLowerCase_unit d = CHR ''p''"
  "char_matches True CHR ''n'' d \<longleftrightarrow> toLowerCase_unit d = CHR ''n''"
  "char_matches True CHR ''g'' d \<longleftrightarrow> toLowerCase_unit d = CHR ''g''"
  "char_matches True CHR ''j'' d \<longleftrightarrow> toLowerCase_unit d = CHR ''j''"
  "char_matches True CHR ''e'' d \<longleftrightarrow> toLowerCase_unit d = CHR ''e''"
  "char_matches True CHR ''i'' d \<longleftrightarrow> toLowerCase_unit d = CHR ''i''"
  "char_matches True CHR ''f'' d \<longleftrightarrow> toLowerCase_unit d = CHR ''f''"
  "char_matches True CHR ''b'' d \<longleftrightarrow> toLowerCase_unit d = CHR ''b''"
  "char_matches True CHR ''m'' d \<longleftrightarrow> toLowerCase_unit d = CHR ''m''"
  "char_matches True CHR ''w'' d \<longleftrightarrow> toLowerCase_unit d = CHR ''w''"
  "char_matches True CHR ''t'' d \<longleftrightarrow> toLowerCase_unit d = CHR ''t''"
  by (rule char_matches_lower, simp)+



lemma lower_word3:
  "(\<exists>x rest. s = x # rest \<and> toLowerCase_unit x = a \<and>
      (\<exists>y rest'. rest = y # rest' \<and> toLowerCase_unit y = b \<and>
         (\<exists>z. rest' = [z] \<and> toLowerCase_unit z = c)))
   \<longleftrightarrow> toLowerCase s = [a, b, c]"
  by (auto simp: toLowerCase_def map_eq_Cons_conv)

lemma lower_word4:
  "(\<exists>x rest. s = x # rest \<and> toLowerCase_unit x = a \<and>
      (\<exists>y rest'. rest = y # rest' \<and> toLowerCase_unit y = b \<and>
         (\<exists>z rest''. rest' = z # rest'' \<and> toLowerCase_unit z = c \<and>
            (\<exists>u. rest'' = [u] \<and> toLowerCase_unit u = d))))
   \<longleftrightarrow> toLowerCase s = [a, b, c, d]"
  by (auto simp: toLowerCase_def map_eq_Cons_conv)

lemma image_alternatives:
  "[] \<in> set (rmatch True
      (Alt (Seq (Lit CHR ''p'') (Seq (Lit CHR ''n'') (Lit CHR ''g'')))
      (Alt (Seq (Lit CHR ''j'') (Seq (Lit CHR ''p'')
             (Seq (Opt (Lit CHR ''e'')) (Lit CHR ''g''))))
      (Alt (Seq (Lit CHR ''g'') (Seq (Lit CHR ''i'') (Lit CHR ''f'')))
      (Alt (Seq (Lit CHR ''b'') (Seq (Lit CHR ''m'') (Lit CHR ''p'')))
      (Alt (Seq (Lit CHR ''w'') (Seq (Lit CHR ''e'') (Seq (Lit CHR ''b'') (Lit CHR ''p''))))
           (Seq (Lit CHR ''t'') (Seq (Lit CHR ''i'') (Seq (Lit CHR ''f'')
             (Opt (Lit CHR ''f'')))))))))) s)
   \<longleftrightarrow> toLowerCase s \<in> set image_extensions"
  apply (simp only: full_simps pattern_chars)
  apply (simp only: lower_word3 lower_word4)
  apply (auto simp: image_extensions_def toLowerCase_def map_eq_Cons_conv)
  done


lemma image_extension_regex_at:
  "rmatch True image_extension_regex s \<noteq> [] \<longleftrightarrow>
     (\<exists>e \<in> set image_extensions. toLowerCase s = CHR ''.'' # e)"
proof (cases s)
  case Nil
  then show ?thesis
    by (simp add: image_extension_regex_def toLowerCase_def)
next
  case (Cons d rest)
  have "rmatch True image_extension_regex (d # rest) \<noteq> [] \<longleftrightarrow>
          toLowerCase_unit d = CHR ''.'' \<and> toLowerCase rest \<in> set image_extensions"
  proof (cases "toLowerCase_unit d = CHR ''.''")
    case True
    then have "rmatch True (Lit CHR ''.'') (d # rest) = [rest]"
      by (simp add: pattern_chars)
    then show ?thesis
      unfolding image_extension_regex_def
      by (simp only: rmatch.simps(2) [of True "Lit CHR ''.''"] list.map concat.simps
            append_Nil2 rmatch_Seq_End image_alternatives True simp_thms)
  next
    case False
    then have "rmatch True (Lit CHR ''.'') (d # rest) = []"
      by (simp add: pattern_chars)
    then show ?thesis
      unfolding image_extension_regex_def
      by (simp only: rmatch.simps(2) [of True "Lit CHR ''.''"] list.map concat.simps
            False simp_thms)
  qed
  then show ?thesis
    by (auto simp: Cons toLowerCase_def)
qed

lemma suffix_iff_drop:
  "suffix (x # xs) ys \<longleftrightarrow> (\<exists>k \<in> set [0 ..< Suc (length ys)]. drop k ys = x # xs)"
proof
  assume "suffix (x # xs) ys"
  then obtain zs where "ys = zs @ x # xs" by (auto simp: suffix_def)
  then have "drop (length zs) ys = x # xs" "length zs \<in> set [0 ..< Suc (length ys)]"
    by simp_all
  then show "\<exists>k \<in> set [0 ..< Suc (length ys)]. drop k ys = x # xs" by blast
next
  assume "\<exists>k \<in> set [0 ..< Suc (length ys)]. drop k ys = x # xs"
  then obtain k where "drop k ys = x # xs" by blast
  then show "suffix (x # xs) ys" by (metis suffix_drop)
qed

lemma regex_test_image_extension:
  "regex_test True image_extension_regex name \<longleftrightarrow> has_image_extension name"
proof -
  have "regex_test True image_extension_regex name \<longleftrightarrow>
          (\<exists>k \<in> set [0 ..< Suc (length name)].
             \<exists>e \<in> set image_extensions. drop k (toLowerCase name) = CHR ''.'' # e)"
    by (simp only: regex_test_def list_ex_iff image_extension_regex_at)
       (simp add: toLowerCase_def drop_map)
  also have "\<dots> \<longleftrightarrow>
          (\<exists>e \<in> set image_extensions.
             \<exists>k \<in> set [0 ..< Suc (length (toLowerCase name))].
               drop k (toLowerCase name) = CHR ''.'' # e)"
    by (auto simp: toLowerCase_def)
  also have "\<dots> \<longleftrightarrow> has_image_extension name"
    by (simp only: has_image_extension_def list_ex_iff suffix_iff_drop)
  finally show ?thesis .
qed

text \<open>
  C8, as it is stated, at a concrete input. The claim compares the MIME type as it is
  written; the code converts it to lower case first. A file \<^verbatim>\<open>notes.txt\<close> with the MIME
  type \<^verbatim>\<open>IMAGE/PNG\<close> is an image for the code, and a document for the claim.
\<close>

theorem mime_type_is_compared_in_lower_case:
  "isImage (sample_file ''notes.txt'' ''IMAGE/PNG'')
   \<and> \<not> stated_isImage (sample_file ''notes.txt'' ''IMAGE/PNG'')"
  by code_simp

text \<open>
  C8, amended. A file is classified as image if and only if its MIME type, converted to
  lower case, starts with \<^verbatim>\<open>image\<close>, or its file name ends, case-insensitively, with a dot
  and one of \<^verbatim>\<open>png, jpg, jpeg, gif, bmp, webp, tiff, tif\<close>; otherwise it is a document. The
  document type sent to the OCR call is \<^verbatim>\<open>image_url\<close> for an image and \<^verbatim>\<open>document_url\<close> for
  a document. \<^verbatim>\<open>scan.PNG\<close> with \<^verbatim>\<open>application/octet-stream\<close> is an image, \<^verbatim>\<open>report.pdf\<close> with
  \<^verbatim>\<open>application/pdf\<close> is a document.
\<close>

theorem media_kind:
  "(isImage file \<longleftrightarrow>
      prefix ''image'' (toLowerCase (or_else (mimetype file) '''')) \<or>
      has_image_extension (or_else (originalname file) ''''))
   \<and> (documentType_of file = (if isImage file then ''image_url'' else ''document_url''))
   \<and> isImage \<lparr>path = p, originalname = Some ''scan.PNG'',
               mimetype = Some ''application/octet-stream''\<rparr>
   \<and> \<not> isImage \<lparr>path = p, originalname = Some ''report.pdf'',
                 mimetype = Some ''application/pdf''\<rparr>"
proof -
  have general: "isImage f \<longleftrightarrow>
      prefix ''image'' (toLowerCase (or_else (mimetype f) '''')) \<or>
      has_image_extension (or_else (originalname f) '''')" for f
    by (simp add: isImage_def Let_def regex_test_image_extension)
  have scan: "has_image_extension ''scan.PNG''"
    and report: "\<not> has_image_extension ''report.pdf''"
      "\<not> prefix ''image'' (toLowerCase ''application/pdf'')"
    by code_simp+
  show ?thesis
    using scan report by (simp add: general documentType_of_def)
qed

theorem media_kind_witness:
  "isImage (sample_file ''Photo.JPeG'' ''application/octet-stream'')
   \<and> has_image_extension ''Photo.JPeG''
   \<and> documentType_of (sample_file ''Photo.JPeG'' ''application/octet-stream'') = ''image_url''
   \<and> isImage (sample_file ''notes.txt'' ''Image/PNG'')
   \<and> prefix ''image'' (toLowerCase ''Image/PNG'')"
proof -
  have h: "has_image_extension ''Photo.JPeG''" "prefix ''image'' (toLowerCase ''Image/PNG'')"
    by code_simp+
  from h media_kind [of "sample_file ''Photo.JPeG'' ''application/octet-stream''" "''''"]
    media_kind [of "sample_file ''notes.txt'' ''Image/PNG''" "''''"]
  show ?thesis by (simp add: sample_file_def)
qed

end
